theory Spec2Isabelle
  imports Complex_Main
begin

text \<open>
  A model of the satellite tracker's position computation. The repository holds two
  versions of the component \<^verbatim>\<open>App\<close>: one that samples, for each satellite, four
  positions one hour apart into a \<^verbatim>\<open>SampledPositionProperty\<close> (the sampled-position
  component), and one that recomputes a single geodetic position for each satellite
  (the snapshot component, \<^verbatim>\<open>src/App.tsx\<close>). Both are modelled as functions from the
  component state to the component state; the orbit propagation (satellite.js) and the
  rendering library are parameters. The sampled-position component is modelled twice:
  first for the runs in which every library call returns (\<open>sampleLoop\<close>,
  \<open>calculateSatellitePositions\<close>), then with the exceptions that library calls can throw
  (\<open>sampleLoopExn\<close>, \<open>calculateSatellitePositionsExn\<close>); a call of the second that
  returns without an exception gives the result of the first
  (\<open>sampleLoopExn_Inr\<close>, \<open>calculateSatellitePositionsExn_returns\<close>).
\<close>

section \<open>JavaScript values used by the component\<close>

text \<open>
  A JavaScript \<^verbatim>\<open>number\<close>: a finite value or one of the three non-finite ones.
  Finite values are idealised as reals (rounding and overflow of IEEE doubles are not
  modelled); the non-finite values are kept, because a failed orbit computation shows up
  as \<^verbatim>\<open>NaN\<close> components.
\<close>

datatype number = Finite real | PosInf | NegInf | NaN

fun signOf :: "number \<Rightarrow> real" where
  "signOf (Finite a) = sgn a"
| "signOf PosInf = 1"
| "signOf NegInf = - 1"
| "signOf NaN = 0"

text \<open>The operator \<^verbatim>\<open>*\<close> on numbers.\<close>

fun mulNumber :: "number \<Rightarrow> number \<Rightarrow> number" where
  "mulNumber (Finite a) (Finite b) = Finite (a * b)"
| "mulNumber NaN b = NaN"
| "mulNumber a NaN = NaN"
| "mulNumber a b =
     (let s = signOf a * signOf b
      in if s = 0 then NaN else if 0 < s then PosInf else NegInf)"

fun isFinite :: "number \<Rightarrow> bool" where
  "isFinite (Finite a) = True"
| "isFinite PosInf = False"
| "isFinite NegInf = False"
| "isFinite NaN = False"

text \<open>
  \<^verbatim>\<open>EciVec3<number>\<close> of satellite.js: an object with the three components of an
  inertial position, in kilometres.
\<close>

datatype eciVec3 = EciVec3 number number number

fun finiteVec :: "eciVec3 \<Rightarrow> bool" where
  "finiteVec (EciVec3 a b c) = (isFinite a \<and> isFinite b \<and> isFinite c)"

text \<open>
  The values the field \<^verbatim>\<open>position\<close> of a propagation result can hold at run time
  (its declared type is \<^verbatim>\<open>EciVec3<number> | boolean\<close>; \<^verbatim>\<open>undefined\<close> and
  \<^verbatim>\<open>null\<close> are what the guard of the source also excludes).
\<close>

datatype jsValue = JsUndefined | JsNull | JsBoolean bool | JsObject eciVec3

text \<open>Truthiness, as the left operand of \<^verbatim>\<open>&&\<close> tests it.\<close>

fun truthy :: "jsValue \<Rightarrow> bool" where
  "truthy JsUndefined = False"
| "truthy JsNull = False"
| "truthy (JsBoolean b) = b"
| "truthy (JsObject v) = True"

text \<open>The operator \<^verbatim>\<open>typeof\<close>.\<close>

fun typeof :: "jsValue \<Rightarrow> string" where
  "typeof JsUndefined = ''undefined''"
| "typeof JsNull = ''object''"
| "typeof (JsBoolean b) = ''boolean''"
| "typeof (JsObject v) = ''object''"

section \<open>Data of the component\<close>

text \<open>\<^verbatim>\<open>interface TleData { name; line1; line2 }\<close>\<close>

record TleData =
  name :: string
  line1 :: string
  line2 :: string

text \<open>The result of \<^verbatim>\<open>propagate\<close>.\<close>

record PositionAndVelocity =
  position :: jsValue
  velocity :: jsValue

text \<open>The result of \<^verbatim>\<open>eciToGeodetic\<close>: angles in radians, height in kilometres.\<close>

record Geodetic =
  longitude :: number
  latitude :: number
  height :: number

text \<open>
  A \<^verbatim>\<open>JulianDate\<close> is a point in time, here in seconds on one fixed scale;
  \<^verbatim>\<open>JulianDate.addHours(t, h, result)\<close> is the date \<open>h\<close> hours after \<open>t\<close>.
  A JavaScript \<^verbatim>\<open>Date\<close> is a point in time in milliseconds.
\<close>

type_synonym julianDate = real
type_synonym jsDate = real

definition addHours :: "julianDate \<Rightarrow> nat \<Rightarrow> julianDate" where
  "addHours t h = t + real h * 3600"

text \<open>
  A \<^verbatim>\<open>SampledPositionProperty\<close> is represented by the samples handed to it, in the
  order of the calls of \<^verbatim>\<open>addSample\<close>. What the rendering library computes from
  these samples at a query time (interpolation between samples, the value outside the
  sampled interval) is the library's code and not part of the component.
\<close>

type_synonym 'pos SampledPositionProperty = "(julianDate \<times> 'pos) list"

definition addSample ::
  "'pos SampledPositionProperty \<Rightarrow> julianDate \<Rightarrow> 'pos \<Rightarrow> 'pos SampledPositionProperty" where
  "addSample positionProperty time pos = positionProperty @ [(time, pos)]"

text \<open>\<^verbatim>\<open>interface SatelliteEntity { name; position }\<close>\<close>

record 'pos SatelliteEntity =
  entityName :: string
  entityPosition :: "'pos SampledPositionProperty"

text \<open>
  The functions the component imports from satellite.js and from the rendering library.
  They are parameters of the model: \<open>'satrec\<close> is the parsed element set and \<open>'pos\<close>
  the \<^verbatim>\<open>Cartesian3\<close> of the renderer. A field gives what the call returns when it
  returns; which calls throw instead is a second parameter, \<open>throws\<close>, below.
\<close>

record ('satrec, 'pos) lib =
  twoline2satrec :: "string \<Rightarrow> string \<Rightarrow> 'satrec"
  propagate :: "'satrec \<Rightarrow> jsDate \<Rightarrow> PositionAndVelocity"
  gstime :: "jsDate \<Rightarrow> number"
  eciToGeodetic :: "eciVec3 \<Rightarrow> number \<Rightarrow> Geodetic"
  degreesLong :: "number \<Rightarrow> number"
  degreesLat :: "number \<Rightarrow> number"
  fromDegrees :: "number \<Rightarrow> number \<Rightarrow> number \<Rightarrow> 'pos"
  toDate :: "julianDate \<Rightarrow> jsDate"

text \<open>
  The state of the component that the functions below write: the published entities
  (\<^verbatim>\<open>useState<SatelliteEntity[]>([])\<close>) and the lines written to the console.
\<close>

record 'pos appState =
  satelliteEntities :: "'pos SatelliteEntity list"
  console :: "string list"

section \<open>The sampling loop\<close>

text \<open>
  The loop of \<^verbatim>\<open>calculateSatellitePositions\<close>:
  \<^verbatim>\<open>for (let i = 0; i < 4; i++) { ... }\<close>, with the loop counter and the property
  being filled as arguments, in a run in which every library call returns. TypeScript narrows \<^verbatim>\<open>positionEci\<close> to the vector type
  inside the guard; the \<open>case\<close> does the same.
\<close>

function sampleLoop ::
  "('satrec, 'pos) lib \<Rightarrow> 'satrec \<Rightarrow> julianDate \<Rightarrow> nat \<Rightarrow>
   'pos SampledPositionProperty \<Rightarrow> 'pos SampledPositionProperty" where
  "sampleLoop L satrec start i positionProperty =
     (if i < 4 then
        (let time = addHours start i;
             jsDate = toDate L time;
             positionAndVelocity = propagate L satrec jsDate;
             positionEci = position positionAndVelocity
         in sampleLoop L satrec start (i + 1)
              (if truthy positionEci \<and> typeof positionEci = ''object'' then
                 (case positionEci of
                    JsObject v \<Rightarrow>
                      (let gmst = gstime L jsDate;
                           positionGd = eciToGeodetic L v gmst;
                           pos = fromDegrees L
                                   (degreesLong L (longitude positionGd))
                                   (degreesLat L (latitude positionGd))
                                   (mulNumber (height positionGd) (Finite 1000))
                       in addSample positionProperty time pos)
                  | _ \<Rightarrow> positionProperty)
               else positionProperty))
      else positionProperty)"
  by pat_completeness auto
termination
  by (relation "measure (\<lambda>(L, satrec, start, i, positionProperty). 4 - i)") auto

declare sampleLoop.simps [simp del]

text \<open>
  \<^verbatim>\<open>calculateSatellitePositions\<close> of the sampled-position component, in a run in which
  every library call returns. \<open>tleData\<close> is
  the \<^verbatim>\<open>data\<close> of the query, \<open>None\<close> for \<^verbatim>\<open>undefined\<close>; \<open>start\<close> is the date the
  component captured when it was evaluated.
\<close>

definition calculateSatellitePositions ::
  "('satrec, 'pos) lib \<Rightarrow> julianDate \<Rightarrow> TleData list option \<Rightarrow>
   'pos appState \<Rightarrow> 'pos appState" where
  "calculateSatellitePositions L start tleData st =
     (case tleData of
        None \<Rightarrow> st
      | Some records \<Rightarrow>
          (let entities =
                 map (\<lambda>r. let satrec = twoline2satrec L (line1 r) (line2 r);
                              positionProperty = sampleLoop L satrec start 0 []
                          in \<lparr>entityName = name r, entityPosition = positionProperty\<rparr>)
                     records
           in st\<lparr>satelliteEntities := entities\<rparr>))"

section \<open>The snapshot component\<close>

text \<open>
  The component in \<^verbatim>\<open>src/App.tsx\<close> keeps one geodetic position per satellite instead
  of a sampled property.
  \<^verbatim>\<open>interface Satellite { name; position: { longitude; latitude; altitude } }\<close>
\<close>

record GeoPosition =
  longitudeDeg :: number
  latitudeDeg :: number
  altitude :: number

record Satellite =
  satelliteName :: string
  satellitePosition :: GeoPosition

record snapshotState =
  satellites :: "Satellite list"
  consoleErrors :: "string list"

text \<open>
  The callback of \<^verbatim>\<open>tleData.map\<close>; \<open>None\<close> is \<^verbatim>\<open>null\<close>. The callback evaluates
  \<^verbatim>\<open>new Date()\<close> once for \<^verbatim>\<open>propagate\<close> and once more for \<^verbatim>\<open>gstime\<close>;
  \<open>dates\<close> holds these two readings of the wall clock.
\<close>

definition snapshotOf ::
  "('satrec, 'pos) lib \<Rightarrow> jsDate \<times> jsDate \<Rightarrow> TleData \<Rightarrow> Satellite option" where
  "snapshotOf L dates r =
     (let satrec = twoline2satrec L (line1 r) (line2 r);
          positionAndVelocity = propagate L satrec (fst dates);
          positionEci = position positionAndVelocity
      in if truthy positionEci \<and> typeof positionEci = ''object'' then
           (case positionEci of
              JsObject v \<Rightarrow>
                (let gmst = gstime L (snd dates);
                     positionGd = eciToGeodetic L v gmst;
                     longitude = degreesLong L (longitude positionGd);
                     latitude = degreesLat L (latitude positionGd);
                     altitude = mulNumber (height positionGd) (Finite 1000)
                 in Some \<lparr>satelliteName = name r,
                           satellitePosition =
                             \<lparr>longitudeDeg = longitude, latitudeDeg = latitude,
                              altitude = altitude\<rparr>\<rparr>)
            | _ \<Rightarrow> None)
         else None)"

text \<open>
  \<^verbatim>\<open>calculateSatellitePositions\<close> of the snapshot component: map, then
  \<^verbatim>\<open>.filter(satellite => satellite !== null)\<close>, then \<^verbatim>\<open>setSatellites\<close>. The
  \<open>else\<close> branch of the callback writes one line with \<^verbatim>\<open>console.error\<close> for each
  record it answers with \<^verbatim>\<open>null\<close>. \<open>dates k\<close> are the clock readings of the callback
  for the record at index \<open>k\<close>.
\<close>

definition calculateSatellitePositions_snapshot ::
  "('satrec, 'pos) lib \<Rightarrow> (nat \<Rightarrow> jsDate \<times> jsDate) \<Rightarrow> TleData list \<Rightarrow>
   snapshotState \<Rightarrow> snapshotState" where
  "calculateSatellitePositions_snapshot L dates tleData st =
     (let mapped = map (\<lambda>(k, r). snapshotOf L (dates k) r) (enumerate 0 tleData);
          updatedSatellites = List.map_filter (\<lambda>s. s) mapped
      in st\<lparr>satellites := updatedSatellites,
            consoleErrors := consoleErrors st @
              concat (map (\<lambda>s. case s of None \<Rightarrow> [''Something is wrong with the data'']
                                 | Some _ \<Rightarrow> []) mapped)\<rparr>)"

section \<open>Library calls that throw\<close>

text \<open>
  A library call either returns or throws. The record \<open>lib\<close> says what a call returns
  when it returns; \<open>throws\<close> says which calls throw, and what. The component has no
  \<^verbatim>\<open>try\<close>: an exception thrown inside the loop leaves the loop, the callback of
  \<^verbatim>\<open>map\<close> and \<^verbatim>\<open>calculateSatellitePositions\<close> before \<^verbatim>\<open>setSatelliteEntities\<close>
  is reached.
\<close>

datatype jsException = JsException string

datatype 'satrec libCall =
    Twoline2satrec string string
  | Propagate 'satrec jsDate
  | Gstime jsDate
  | EciToGeodetic eciVec3 number
  | DegreesLong number
  | DegreesLat number
  | FromDegrees number number number
  | ToDate julianDate

type_synonym 'satrec throwing = "'satrec libCall \<Rightarrow> jsException option"

definition call :: "'satrec throwing \<Rightarrow> 'satrec libCall \<Rightarrow> 'a \<Rightarrow> jsException + 'a" where
  "call throws c result = (case throws c of Some e \<Rightarrow> Inl e | None \<Rightarrow> Inr result)"

text \<open>Sequencing: the statements after a call that throws are not run.\<close>

fun bindExn :: "jsException + 'a \<Rightarrow> ('a \<Rightarrow> jsException + 'b) \<Rightarrow> jsException + 'b" where
  "bindExn (Inl e) f = Inl e"
| "bindExn (Inr a) f = f a"

text \<open>
  The statements inside the guard, in the order of evaluation: \<^verbatim>\<open>gstime\<close>,
  \<^verbatim>\<open>eciToGeodetic\<close>, \<^verbatim>\<open>degreesLong\<close>, \<^verbatim>\<open>degreesLat\<close>, the product with 1000,
  \<^verbatim>\<open>Cartesian3.fromDegrees\<close>.
\<close>

definition convertExn ::
  "('satrec, 'pos) lib \<Rightarrow> 'satrec throwing \<Rightarrow> eciVec3 \<Rightarrow> jsDate \<Rightarrow> jsException + 'pos" where
  "convertExn L throws positionEci jsDate =
     bindExn (call throws (Gstime jsDate) (gstime L jsDate)) (\<lambda>gmst.
     bindExn (call throws (EciToGeodetic positionEci gmst) (eciToGeodetic L positionEci gmst))
       (\<lambda>positionGd.
     bindExn (call throws (DegreesLong (longitude positionGd))
                (degreesLong L (longitude positionGd))) (\<lambda>lon.
     bindExn (call throws (DegreesLat (latitude positionGd))
                (degreesLat L (latitude positionGd))) (\<lambda>lat.
     call throws (FromDegrees lon lat (mulNumber (height positionGd) (Finite 1000)))
       (fromDegrees L lon lat (mulNumber (height positionGd) (Finite 1000)))))))"

text \<open>
  One pass of the loop body for the counter \<open>i\<close>: the new value of the property, or the
  exception that a call of the pass throws.
\<close>

definition sampleStepExn ::
  "('satrec, 'pos) lib \<Rightarrow> 'satrec throwing \<Rightarrow> 'satrec \<Rightarrow> julianDate \<Rightarrow> nat \<Rightarrow>
   'pos SampledPositionProperty \<Rightarrow> jsException + 'pos SampledPositionProperty" where
  "sampleStepExn L throws satrec start i positionProperty =
     (let time = addHours start i
      in bindExn (call throws (ToDate time) (toDate L time)) (\<lambda>jsDate.
         bindExn (call throws (Propagate satrec jsDate) (propagate L satrec jsDate))
           (\<lambda>positionAndVelocity.
         let positionEci = position positionAndVelocity
         in if truthy positionEci \<and> typeof positionEci = ''object'' then
              (case positionEci of
                 JsObject v \<Rightarrow>
                   bindExn (convertExn L throws v jsDate)
                     (\<lambda>pos. Inr (addSample positionProperty time pos))
               | _ \<Rightarrow> Inr positionProperty)
            else Inr positionProperty)))"

text \<open>The loop \<^verbatim>\<open>for (let i = 0; i < 4; i++)\<close>: it ends at the first pass that throws.\<close>

function sampleLoopExn ::
  "('satrec, 'pos) lib \<Rightarrow> 'satrec throwing \<Rightarrow> 'satrec \<Rightarrow> julianDate \<Rightarrow> nat \<Rightarrow>
   'pos SampledPositionProperty \<Rightarrow> jsException + 'pos SampledPositionProperty" where
  "sampleLoopExn L throws satrec start i positionProperty =
     (if i < 4 then
        (case sampleStepExn L throws satrec start i positionProperty of
           Inl e \<Rightarrow> Inl e
         | Inr positionProperty' \<Rightarrow> sampleLoopExn L throws satrec start (i + 1) positionProperty')
      else Inr positionProperty)"
  by pat_completeness auto
termination
  by (relation "measure (\<lambda>(L, throws, satrec, start, i, positionProperty). 4 - i)") auto

declare sampleLoopExn.simps [simp del]

text \<open>The callback of \<^verbatim>\<open>tleData.map\<close> for one record.\<close>

definition entityExn ::
  "('satrec, 'pos) lib \<Rightarrow> 'satrec throwing \<Rightarrow> julianDate \<Rightarrow> TleData \<Rightarrow>
   jsException + 'pos SatelliteEntity" where
  "entityExn L throws start r =
     bindExn (call throws (Twoline2satrec (line1 r) (line2 r))
                (twoline2satrec L (line1 r) (line2 r))) (\<lambda>satrec.
     bindExn (sampleLoopExn L throws satrec start 0 []) (\<lambda>positionProperty.
     Inr \<lparr>entityName = name r, entityPosition = positionProperty\<rparr>))"

text \<open>\<^verbatim>\<open>tleData.map\<close>: the records in order, up to the first callback that throws.\<close>

fun mapExn :: "('a \<Rightarrow> jsException + 'b) \<Rightarrow> 'a list \<Rightarrow> jsException + 'b list" where
  "mapExn f [] = Inr []"
| "mapExn f (x # xs) =
     (case f x of
        Inl e \<Rightarrow> Inl e
      | Inr y \<Rightarrow> (case mapExn f xs of Inl e \<Rightarrow> Inl e | Inr ys \<Rightarrow> Inr (y # ys)))"

text \<open>
  \<^verbatim>\<open>calculateSatellitePositions\<close> of the sampled-position component with the exceptions
  of the library: the exception that reaches the caller, if any, and the state after the
  call. The only write to the state is \<^verbatim>\<open>setSatelliteEntities(entities)\<close>, after the map.
\<close>

definition calculateSatellitePositionsExn ::
  "('satrec, 'pos) lib \<Rightarrow> 'satrec throwing \<Rightarrow> julianDate \<Rightarrow> TleData list option \<Rightarrow>
   'pos appState \<Rightarrow> jsException option \<times> 'pos appState" where
  "calculateSatellitePositionsExn L throws start tleData st =
     (case tleData of
        None \<Rightarrow> (None, st)
      | Some records \<Rightarrow>
          (case mapExn (entityExn L throws start) records of
             Inl e \<Rightarrow> (Some e, st)
           | Inr entities \<Rightarrow> (None, st\<lparr>satelliteEntities := entities\<rparr>)))"

section \<open>The loop in closed form\<close>

text \<open>The guard of both components on the propagated position.\<close>

definition guardOk :: "jsValue \<Rightarrow> bool" where
  "guardOk positionEci = (truthy positionEci \<and> typeof positionEci = ''object'')"

definition propagationOk :: "('satrec, 'pos) lib \<Rightarrow> 'satrec \<Rightarrow> julianDate \<Rightarrow> bool" where
  "propagationOk L satrec time = guardOk (position (propagate L satrec (toDate L time)))"

text \<open>
  The statements inside the guard, up to the call of \<^verbatim>\<open>addSample\<close>, as one function of
  the vector and the date: sidereal time, geodetic coordinates, angles in degrees, height
  times 1000, \<^verbatim>\<open>Cartesian3.fromDegrees\<close>. The component makes no test on the components
  of the vector.
\<close>

definition convertPosition :: "('satrec, 'pos) lib \<Rightarrow> eciVec3 \<Rightarrow> jsDate \<Rightarrow> 'pos" where
  "convertPosition L v jsDate =
     (let positionGd = eciToGeodetic L v (gstime L jsDate)
      in fromDegrees L (degreesLong L (longitude positionGd))
           (degreesLat L (latitude positionGd))
           (mulNumber (height positionGd) (Finite 1000)))"

definition sampleTime :: "julianDate \<Rightarrow> real \<Rightarrow> nat \<Rightarrow> julianDate" where
  "sampleTime windowStart sampleSpacing i = windowStart + real i * sampleSpacing"

text \<open>
  What one pass of the loop adds for the index \<open>i\<close>: the sample at the time of the index
  when the propagated position is an object, nothing otherwise. The number of passes and
  the spacing are arguments here, so that the facts below can be proved by induction; the
  loop has 4 and 3600.
\<close>

definition loopEpoch ::
  "('satrec, 'pos) lib \<Rightarrow> 'satrec \<Rightarrow> julianDate \<Rightarrow> real \<Rightarrow> nat \<Rightarrow>
   (julianDate \<times> 'pos) option" where
  "loopEpoch L satrec start spacing i =
     (let time = start + real i * spacing
      in case position (propagate L satrec (toDate L time)) of
           JsObject v \<Rightarrow> Some (time, convertPosition L v (toDate L time))
         | _ \<Rightarrow> None)"

definition loopSamples ::
  "('satrec, 'pos) lib \<Rightarrow> 'satrec \<Rightarrow> julianDate \<Rightarrow> nat \<Rightarrow> real \<Rightarrow>
   'pos SampledPositionProperty" where
  "loopSamples L satrec start n spacing =
     List.map_filter (loopEpoch L satrec start spacing) [0..<n]"

section \<open>The trajectory build as the specification words it\<close>

text \<open>
  The frame converter of the specification (section 4.1): it fails with \<open>InvalidVector\<close>
  when the input position is not a finite 3-vector, and otherwise gives the render
  coordinate with the height in metres.
\<close>

datatype specFailure = InvalidVector

definition toRenderFrame ::
  "('satrec, 'pos) lib \<Rightarrow> jsValue \<Rightarrow> jsDate \<Rightarrow> specFailure + 'pos" where
  "toRenderFrame L inertialPosition time =
     (case inertialPosition of
        JsObject v \<Rightarrow>
          if finiteVec v then Inr (convertPosition L v time) else Inl InvalidVector
      | _ \<Rightarrow> Inl InvalidVector)"

text \<open>
  \<open>buildTrajectory(elementSet, windowStart, sampleCount, sampleSpacing)\<close> of the
  specification (section 4.2): for \<open>i\<close> from 0 up to \<open>sampleCount\<close> (excluded) the time
  \<open>windowStart + i * sampleSpacing\<close>, the propagated position there, its conversion, and
  the pair of time and position appended; an index whose propagation or conversion fails
  is skipped.
\<close>

definition buildTrajectory ::
  "('satrec, 'pos) lib \<Rightarrow> 'satrec \<Rightarrow> julianDate \<Rightarrow> nat \<Rightarrow> real \<Rightarrow>
   'pos SampledPositionProperty" where
  "buildTrajectory L elementSet windowStart sampleCount sampleSpacing =
     List.map_filter
       (\<lambda>i. let time_i = windowStart + real i * sampleSpacing
            in case toRenderFrame L (position (propagate L elementSet (toDate L time_i)))
                      (toDate L time_i) of
                 Inr pos \<Rightarrow> Some (time_i, pos)
               | Inl failure \<Rightarrow> None)
       [0..<sampleCount]"

section \<open>A stand-in library for concrete runs\<close>

text \<open>
  A small library to run the component on: the parsed element set is the pair of its lines,
  a position is the triple handed to \<^verbatim>\<open>fromDegrees\<close>, and the geodetic conversion
  passes the components of the vector through. Propagation yields \<^verbatim>\<open>false\<close> for the
  element set whose first line is \<open>bad\<close>, yields \<^verbatim>\<open>false\<close> after the first hour for
  \<open>decaying\<close>, yields a vector of \<^verbatim>\<open>NaN\<close> for \<open>nan\<close>, and a finite vector otherwise.
\<close>

definition demoLib :: "(string \<times> string, number \<times> number \<times> number) lib" where
  "demoLib =
     \<lparr>twoline2satrec = (\<lambda>l1 l2. (l1, l2)),
      propagate = (\<lambda>satrec d.
        if fst satrec = ''bad'' \<or> (fst satrec = ''decaying'' \<and> 3600000 < d) then
          \<lparr>position = JsBoolean False, velocity = JsBoolean False\<rparr>
        else if fst satrec = ''nan'' then
          \<lparr>position = JsObject (EciVec3 NaN NaN NaN),
           velocity = JsObject (EciVec3 NaN NaN NaN)\<rparr>
        else
          \<lparr>position = JsObject (EciVec3 (Finite 10) (Finite 20) (Finite 550)),
           velocity = JsObject (EciVec3 (Finite 0) (Finite 0) (Finite 0))\<rparr>),
      gstime = (\<lambda>d. Finite 0),
      eciToGeodetic = (\<lambda>v g. case v of EciVec3 a b c \<Rightarrow>
        \<lparr>longitude = a, latitude = b, height = c\<rparr>),
      degreesLong = (\<lambda>a. a),
      degreesLat = (\<lambda>a. a),
      fromDegrees = (\<lambda>lon lat h. (lon, lat, h)),
      toDate = (\<lambda>t. t * 1000)\<rparr>"

definition sat1 :: TleData where
  "sat1 = \<lparr>name = ''SAT-1'', line1 = ''1 25544U'', line2 = ''2 25544''\<rparr>"

definition sat2 :: TleData where
  "sat2 = \<lparr>name = ''SAT-2'', line1 = ''bad'', line2 = ''bad''\<rparr>"

text \<open>
  Exceptions for the stand-in library: \<^verbatim>\<open>Cartesian3.fromDegrees\<close> throws when the
  longitude or the latitude is \<^verbatim>\<open>NaN\<close>; no other call throws.
\<close>

definition demoThrows :: "(string \<times> string) throwing" where
  "demoThrows c =
     (case c of
        FromDegrees lon lat h \<Rightarrow>
          if lon = NaN \<or> lat = NaN then
            Some (JsException ''DeveloperError: normalized result is not a number'')
          else None
      | _ \<Rightarrow> None)"

definition noThrows :: "'satrec throwing" where
  "noThrows c = None"

definition sat3 :: TleData where
  "sat3 = \<lparr>name = ''SAT-3'', line1 = ''nan'', line2 = ''nan''\<rparr>"

section \<open>The loop and its closed form\<close>

lemma guardOk_iff: "guardOk p \<longleftrightarrow> (\<exists>v. p = JsObject v)"
  by (cases p) (auto simp: guardOk_def)

lemma sampleLoop_closed:
  "i \<le> 4 \<Longrightarrow> sampleLoop L satrec start i acc =
     acc @ List.map_filter (loopEpoch L satrec start 3600) [i..<4]"
proof (induction L satrec start i acc rule: sampleLoop.induct)
  case (1 L satrec start i acc)
  show ?case
  proof (cases "i < 4")
    case False
    with "1.prems" have "i = 4" by simp
    then show ?thesis by (simp add: sampleLoop.simps [of _ _ _ 4] map_filter_simps)
  next
    case True
    then have upt: "[i..<4] = i # [i + 1..<4]" by (simp add: upt_conv_Cons)
    from True have le: "i + 1 \<le> 4" by simp
    let ?p = "position (propagate L satrec (toDate L (addHours start i)))"
    define acc' where "acc' =
      (if truthy ?p \<and> typeof ?p = ''object'' then
         (case ?p of
            JsObject v \<Rightarrow>
              addSample acc (addHours start i) (convertPosition L v (toDate L (addHours start i)))
          | _ \<Rightarrow> acc)
       else acc)"
    have step: "sampleLoop L satrec start i acc = sampleLoop L satrec start (i + 1) acc'"
      by (subst sampleLoop.simps, cases ?p)
         (simp_all add: True Let_def acc'_def convertPosition_def)
    have "sampleLoop L satrec start (i + 1) acc' =
            acc' @ List.map_filter (loopEpoch L satrec start 3600) [i + 1..<4]"
      using "1.IH" [OF True refl refl refl refl le]
      by (cases ?p) (simp_all add: acc'_def convertPosition_def Let_def)
    moreover have "acc' = acc @ (case loopEpoch L satrec start 3600 i of None \<Rightarrow> [] | Some s \<Rightarrow> [s])"
      by (cases ?p) (simp_all add: acc'_def loopEpoch_def addHours_def addSample_def Let_def)
    ultimately show ?thesis
      by (simp add: step upt map_filter_simps split: option.split)
  qed
qed

lemma loopEpoch_fst:
  "loopEpoch L es ws sp i = Some s \<Longrightarrow> fst s = sampleTime ws sp i"
  by (auto simp: loopEpoch_def sampleTime_def Let_def split: jsValue.splits)

lemma loopEpoch_Some_iff:
  "(loopEpoch L es ws sp i \<noteq> None) = propagationOk L es (sampleTime ws sp i)"
  by (auto simp: loopEpoch_def sampleTime_def propagationOk_def guardOk_iff Let_def split: jsValue.splits)

lemma times_map_filter:
  "map fst (List.map_filter (loopEpoch L es ws sp) js) =
     map (sampleTime ws sp) (filter (\<lambda>i. propagationOk L es (sampleTime ws sp i)) js)"
proof (induction js)
  case Nil
  show ?case by (simp add: map_filter_simps)
next
  case (Cons j js)
  show ?case
  proof (cases "loopEpoch L es ws sp j")
    case None
    with loopEpoch_Some_iff [of L es ws sp j] Cons show ?thesis
      by (simp add: map_filter_simps)
  next
    case (Some s)
    with loopEpoch_Some_iff [of L es ws sp j] loopEpoch_fst [OF Some] Cons show ?thesis
      by (simp add: map_filter_simps)
  qed
qed

lemma times_loopSamples:
  "map fst (loopSamples L es ws n sp) =
     map (sampleTime ws sp) (filter (\<lambda>i. propagationOk L es (sampleTime ws sp i)) [0..<n])"
  by (simp add: loopSamples_def times_map_filter)

lemma sampleTime_strict_mono:
  "0 < sp \<Longrightarrow> i < j \<Longrightarrow> sampleTime ws sp i < sampleTime ws sp j"
  by (simp add: sampleTime_def)

lemma loopSamples_increasing:
  assumes "0 < sp"
  shows "sorted_wrt (<) (map fst (loopSamples L es ws n sp))"
proof -
  have "sorted_wrt (<) (filter (\<lambda>i. propagationOk L es (sampleTime ws sp i)) [0..<n])"
    by (rule sorted_wrt_filter) simp
  then show ?thesis
    unfolding times_loopSamples
    by (rule sorted_wrt_map_mono) (simp add: sampleTime_strict_mono [OF assms])
qed

lemma loopSamples_window:
  assumes "0 \<le> sp" and "t \<in> set (map fst (loopSamples L es ws n sp))"
  shows "ws \<le> t \<and> t \<le> ws + (real n - 1) * sp"
proof -
  from assms(2) obtain i where i: "i < n" and t: "t = sampleTime ws sp i"
    unfolding times_loopSamples by auto
  from i have "real i \<le> real n - 1" by simp
  then have "real i * sp \<le> (real n - 1) * sp"
    using assms(1) by (rule mult_right_mono)
  with assms(1) show ?thesis by (simp add: t sampleTime_def)
qed

lemma sampleLoop_loopSamples:
  "sampleLoop L satrec start 0 [] = loopSamples L satrec start 4 3600"
  by (simp add: sampleLoop_closed loopSamples_def)

lemma addHours_sampleTime: "addHours start i = sampleTime start 3600 i"
  by (simp add: addHours_def sampleTime_def)

lemma upt_4: "[0..<4] = [0, 1, 2, 3::nat]"
  by (simp add: upt_rec numeral_eq_Suc)

section \<open>Auxiliary facts\<close>

lemma in_map_filterD: "y \<in> set (List.map_filter f xs) \<Longrightarrow> \<exists>x \<in> set xs. f x = Some y"
  by (auto simp: map_filter_def)

lemma length_loopSamples: "length (loopSamples L es ws n sp) \<le> n"
proof -
  have "length (map fst (loopSamples L es ws n sp)) \<le> length [0..<n]"
    unfolding times_loopSamples length_map by (rule length_filter_le)
  then show ?thesis by simp
qed

lemma times_subset:
  "set (map fst (loopSamples L es ws n sp)) \<subseteq> sampleTime ws sp ` {0..<n}"
  unfolding times_loopSamples by auto

lemma loopEpoch_SomeD:
  assumes "loopEpoch L es ws sp i = Some s"
  shows "\<exists>v. position (propagate L es (toDate L (fst s))) = JsObject v
           \<and> snd s = convertPosition L v (toDate L (fst s))"
  using assms by (auto simp: loopEpoch_def Let_def split: jsValue.splits)

lemma sample_in_loopSamples:
  assumes "s \<in> set (loopSamples L es ws n sp)"
  shows "\<exists>v. position (propagate L es (toDate L (fst s))) = JsObject v
           \<and> snd s = convertPosition L v (toDate L (fst s))"
proof -
  from assms obtain i where "loopEpoch L es ws sp i = Some s"
    unfolding loopSamples_def by (blast dest: in_map_filterD)
  then show ?thesis by (rule loopEpoch_SomeD)
qed

lemma published_entities:
  "satelliteEntities (calculateSatellitePositions L start (Some records) st) =
     map (\<lambda>r. \<lparr>entityName = name r,
               entityPosition = sampleLoop L (twoline2satrec L (line1 r) (line2 r)) start 0 []\<rparr>)
         records"
  by (simp add: calculateSatellitePositions_def Let_def)

lemma console_unchanged:
  "console (calculateSatellitePositions L start tleData st) = console st"
  by (cases tleData) (simp_all add: calculateSatellitePositions_def Let_def)


lemma snapshot_satellites:
  assumes "s \<in> set (satellites (calculateSatellitePositions_snapshot L dates tleData st))"
  shows "\<exists>k v. k < length tleData
           \<and> position (propagate L (twoline2satrec L (line1 (tleData ! k)) (line2 (tleData ! k)))
                 (fst (dates k))) = JsObject v
           \<and> satelliteName s = name (tleData ! k)
           \<and> altitude (satellitePosition s) =
               mulNumber (height (eciToGeodetic L v (gstime L (snd (dates k))))) (Finite 1000)"
proof -
  from assms obtain m where m: "m \<in> set (map (\<lambda>(k, r). snapshotOf L (dates k) r) (enumerate 0 tleData))"
    and ms: "m = Some s"
    by (auto simp: calculateSatellitePositions_snapshot_def Let_def dest!: in_map_filterD)
  from m obtain k where k: "k < length tleData" and mk: "m = snapshotOf L (dates k) (tleData ! k)"
    by (auto simp: in_set_enumerate_eq)
  from ms mk have "snapshotOf L (dates k) (tleData ! k) = Some s" by simp
  then have "\<exists>v. position (propagate L (twoline2satrec L (line1 (tleData ! k)) (line2 (tleData ! k)))
                 (fst (dates k))) = JsObject v
           \<and> satelliteName s = name (tleData ! k)
           \<and> altitude (satellitePosition s) =
               mulNumber (height (eciToGeodetic L v (gstime L (snd (dates k))))) (Finite 1000)"
    by (auto simp: snapshotOf_def Let_def split: if_splits jsValue.splits)
  with k show ?thesis by blast
qed

lemma sampleTime_inj: "sp \<noteq> 0 \<Longrightarrow> sampleTime ws sp i = sampleTime ws sp j \<Longrightarrow> i = j"
  by (simp add: sampleTime_def)

section \<open>The loop with library exceptions\<close>

lemma call_no_throw: "throws c = None \<Longrightarrow> call throws c r = Inr r"
  by (simp add: call_def)

lemma call_Inr: "call throws c r = Inr x \<Longrightarrow> x = r"
  by (simp add: call_def split: option.splits)

lemma bindExn_Inr: "bindExn m f = Inr b \<Longrightarrow> \<exists>a. m = Inr a \<and> f a = Inr b"
  by (cases m) simp_all

lemma bindExn_Inl: "bindExn m f = Inl e \<Longrightarrow> m = Inl e \<or> (\<exists>a. m = Inr a \<and> f a = Inl e)"
  by (cases m) simp_all

lemma convertExn_Inr:
  assumes "convertExn L throws v d = Inr pos"
  shows "pos = convertPosition L v d"
  using assms unfolding convertExn_def convertPosition_def Let_def
  by (auto dest!: bindExn_Inr call_Inr)

lemma convertExn_no_throw:
  assumes "\<forall>c. throws c = None"
  shows "convertExn L throws v d = Inr (convertPosition L v d)"
  using assms by (simp add: convertExn_def convertPosition_def Let_def call_def)

lemma loopEpoch_hours:
  "loopEpoch L satrec start 3600 i =
     (case position (propagate L satrec (toDate L (addHours start i))) of
        JsObject v \<Rightarrow>
          Some (addHours start i, convertPosition L v (toDate L (addHours start i)))
      | _ \<Rightarrow> None)"
  unfolding loopEpoch_def addHours_def Let_def by (rule refl)

text \<open>One pass, when the two calls before the guard return.\<close>

lemma sampleStepExn_cases:
  assumes "throws (ToDate (addHours start i)) = None"
    and "throws (Propagate satrec (toDate L (addHours start i))) = None"
  shows "sampleStepExn L throws satrec start i acc =
     (case position (propagate L satrec (toDate L (addHours start i))) of
        JsObject v \<Rightarrow>
          (case convertExn L throws v (toDate L (addHours start i)) of
             Inl e \<Rightarrow> Inl e
           | Inr pos \<Rightarrow> Inr (acc @ [(addHours start i, pos)]))
      | _ \<Rightarrow> Inr acc)"
proof (cases "position (propagate L satrec (toDate L (addHours start i)))")
  case (JsObject v)
  then show ?thesis
    using assms
    by (cases "convertExn L throws v (toDate L (addHours start i))")
       (simp_all add: sampleStepExn_def Let_def call_def addSample_def)
qed (use assms in \<open>simp_all add: sampleStepExn_def Let_def call_def\<close>)

lemma sampleStepExn_Inr:
  assumes "sampleStepExn L throws satrec start i acc = Inr acc'"
  shows "acc' = acc @ (case loopEpoch L satrec start 3600 i of None \<Rightarrow> [] | Some s \<Rightarrow> [s])"
proof -
  let ?d = "toDate L (addHours start i)"
  let ?p = "position (propagate L satrec ?d)"
  from assms have body:
    "(if truthy ?p \<and> typeof ?p = ''object'' then
        (case ?p of
           JsObject v \<Rightarrow>
             bindExn (convertExn L throws v ?d) (\<lambda>pos. Inr (addSample acc (addHours start i) pos))
         | _ \<Rightarrow> Inr acc)
      else Inr acc) = Inr acc'"
    unfolding sampleStepExn_def Let_def
    by (auto dest!: bindExn_Inr call_Inr)
  show ?thesis
  proof (cases ?p)
    case (JsObject v)
    with body obtain pos where "convertExn L throws v ?d = Inr pos"
      and "acc' = addSample acc (addHours start i) pos"
      by (auto dest!: bindExn_Inr)
    with JsObject convertExn_Inr [of L throws v ?d pos] show ?thesis
      by (simp add: loopEpoch_hours addSample_def)
  qed (use body in \<open>simp_all add: loopEpoch_hours\<close>)
qed

lemma sampleStepExn_no_throw:
  assumes "\<forall>c. throws c = None"
  shows "sampleStepExn L throws satrec start i acc =
           Inr (acc @ (case loopEpoch L satrec start 3600 i of None \<Rightarrow> [] | Some s \<Rightarrow> [s]))"
  using assms
  by (cases "position (propagate L satrec (toDate L (addHours start i)))")
     (simp_all add: sampleStepExn_cases convertExn_no_throw loopEpoch_hours)

text \<open>Whether a pass throws does not depend on the samples collected so far.\<close>

lemma sampleStepExn_Inl_any:
  assumes "sampleStepExn L throws satrec start i acc = Inl e"
  shows "sampleStepExn L throws satrec start i acc' = Inl e"
proof -
  let ?d = "toDate L (addHours start i)"
  let ?p = "position (propagate L satrec ?d)"
  show ?thesis
  proof (cases "throws (ToDate (addHours start i))")
    case (Some e')
    with assms show ?thesis by (simp add: sampleStepExn_def Let_def call_def)
  next
    case None
    show ?thesis
    proof (cases "throws (Propagate satrec ?d)")
      case (Some e')
      with None assms show ?thesis by (simp add: sampleStepExn_def Let_def call_def)
    next
      case None': None
      from assms show ?thesis
        unfolding sampleStepExn_cases [OF None None']
        by (auto split: jsValue.splits sum.splits)
    qed
  qed
qed

lemma sampleLoopExn_closed:
  "i \<le> 4 \<Longrightarrow> sampleLoopExn L throws satrec start i acc = Inr r \<Longrightarrow>
     r = acc @ List.map_filter (loopEpoch L satrec start 3600) [i..<4]"
proof (induction L throws satrec start i acc rule: sampleLoopExn.induct)
  case (1 L throws satrec start i acc)
  show ?case
  proof (cases "i < 4")
    case False
    with "1.prems" have "i = 4" by simp
    with "1.prems" show ?thesis
      by (simp add: sampleLoopExn.simps [of _ _ _ _ 4] map_filter_simps)
  next
    case True
    then have upt: "[i..<4] = i # [i + 1..<4]" by (simp add: upt_conv_Cons)
    from True have le: "i + 1 \<le> 4" by simp
    from "1.prems"(2) True obtain acc' where
      step: "sampleStepExn L throws satrec start i acc = Inr acc'"
      and rest: "sampleLoopExn L throws satrec start (i + 1) acc' = Inr r"
      by (subst (asm) sampleLoopExn.simps) (auto split: sum.splits)
    from "1.IH" [OF True step le rest]
    have "r = acc' @ List.map_filter (loopEpoch L satrec start 3600) [i + 1..<4]" .
    with sampleStepExn_Inr [OF step] show ?thesis
      by (simp add: upt map_filter_simps split: option.split)
  qed
qed

lemma sampleLoopExn_Inr:
  assumes "sampleLoopExn L throws satrec start 0 [] = Inr r"
  shows "r = sampleLoop L satrec start 0 []"
  using sampleLoopExn_closed [OF _ assms] by (simp add: sampleLoop_closed)

lemma sampleLoopExn_no_throw_from:
  "\<forall>c. throws c = None \<Longrightarrow> i \<le> 4 \<Longrightarrow>
     sampleLoopExn L throws satrec start i acc =
       Inr (acc @ List.map_filter (loopEpoch L satrec start 3600) [i..<4])"
proof (induction L throws satrec start i acc rule: sampleLoopExn.induct)
  case (1 L throws satrec start i acc)
  show ?case
  proof (cases "i < 4")
    case False
    with "1.prems" have "i = 4" by simp
    then show ?thesis
      by (simp add: sampleLoopExn.simps [of _ _ _ _ 4] map_filter_simps)
  next
    case True
    then have upt: "[i..<4] = i # [i + 1..<4]" by (simp add: upt_conv_Cons)
    from True have le: "i + 1 \<le> 4" by simp
    note step = sampleStepExn_no_throw [OF "1.prems"(1), of L satrec start i acc]
    from "1.IH" [OF True step "1.prems"(1) le] step True show ?thesis
      by (subst sampleLoopExn.simps) (simp add: upt map_filter_simps split: option.split)
  qed
qed

lemma sampleLoopExn_no_throw:
  assumes "\<forall>c. throws c = None"
  shows "sampleLoopExn L throws satrec start 0 [] = Inr (sampleLoop L satrec start 0 [])"
  using sampleLoopExn_no_throw_from [OF assms, of 0 L satrec start "[]"]
  by (simp add: sampleLoop_closed)

lemma sampleLoopExn_step_Inl:
  "i < 4 \<Longrightarrow> sampleStepExn L throws satrec start i acc = Inl e \<Longrightarrow>
     sampleLoopExn L throws satrec start i acc = Inl e"
  by (subst sampleLoopExn.simps) simp

text \<open>A pass that throws ends the loop, whatever the passes before it did.\<close>

lemma sampleLoopExn_aborts:
  "j \<le> i \<Longrightarrow> i < 4 \<Longrightarrow> sampleStepExn L throws satrec start i [] = Inl e \<Longrightarrow>
     \<exists>e'. sampleLoopExn L throws satrec start j acc = Inl e'"
proof (induction L throws satrec start j acc rule: sampleLoopExn.induct)
  case (1 L throws satrec start j acc)
  from "1.prems" have j4: "j < 4" by simp
  show ?case
  proof (cases "sampleStepExn L throws satrec start j acc")
    case (Inl e')
    with j4 show ?thesis by (blast intro: sampleLoopExn_step_Inl)
  next
    case (Inr acc')
    have "j \<noteq> i"
    proof
      assume "j = i"
      with sampleStepExn_Inl_any [OF "1.prems"(3), of acc] Inr show False by simp
    qed
    with "1.prems"(1) have "j + 1 \<le> i" by simp
    from "1.IH" [OF j4 Inr this "1.prems"(2) "1.prems"(3)]
    obtain e' where "sampleLoopExn L throws satrec start (j + 1) acc' = Inl e'" ..
    with j4 Inr have "sampleLoopExn L throws satrec start j acc = Inl e'"
      by (subst sampleLoopExn.simps) simp
    then show ?thesis ..
  qed
qed

lemma mapExn_Inr: "mapExn f xs = Inr ys \<Longrightarrow> \<forall>x \<in> set xs. \<exists>y. f x = Inr y"
  by (induction xs arbitrary: ys) (auto split: sum.splits)

lemma mapExn_aborts:
  assumes "x \<in> set xs" and "f x = Inl e"
  shows "\<exists>e'. mapExn f xs = Inl e'"
proof (cases "mapExn f xs")
  case (Inl e')
  then show ?thesis ..
next
  case (Inr ys)
  with mapExn_Inr [OF Inr] assms show ?thesis by auto
qed

lemma mapExn_map:
  "mapExn f xs = Inr ys \<Longrightarrow> \<forall>x \<in> set xs. \<forall>y. f x = Inr y \<longrightarrow> y = g x \<Longrightarrow> ys = map g xs"
  by (induction xs arbitrary: ys) (auto split: sum.splits)

lemma entityExn_Inr:
  assumes "entityExn L throws start r = Inr e"
  shows "e = \<lparr>entityName = name r,
              entityPosition = sampleLoop L (twoline2satrec L (line1 r) (line2 r)) start 0 []\<rparr>"
  using assms unfolding entityExn_def
  by (auto dest!: bindExn_Inr call_Inr sampleLoopExn_Inr)

lemma calculateSatellitePositionsExn_returns:
  assumes "calculateSatellitePositionsExn L throws start tleData st = (None, st')"
  shows "st' = calculateSatellitePositions L start tleData st"
proof (cases tleData)
  case None
  with assms show ?thesis
    by (simp add: calculateSatellitePositionsExn_def calculateSatellitePositions_def)
next
  case (Some records)
  with assms obtain entities where m: "mapExn (entityExn L throws start) records = Inr entities"
    and st': "st' = st\<lparr>satelliteEntities := entities\<rparr>"
    by (auto simp: calculateSatellitePositionsExn_def split: sum.splits)
  from mapExn_map [OF m, of "\<lambda>r. \<lparr>entityName = name r,
              entityPosition = sampleLoop L (twoline2satrec L (line1 r) (line2 r)) start 0 []\<rparr>"]
  have "entities = map (\<lambda>r. \<lparr>entityName = name r,
              entityPosition = sampleLoop L (twoline2satrec L (line1 r) (line2 r)) start 0 []\<rparr>) records"
    by (blast dest: entityExn_Inr)
  with Some st' show ?thesis
    by (simp add: calculateSatellitePositions_def Let_def)
qed

lemma calculateSatellitePositionsExn_aborts:
  assumes "r \<in> set records" and "entityExn L throws start r = Inl e"
  shows "\<exists>e'. calculateSatellitePositionsExn L throws start (Some records) st = (Some e', st)"
proof -
  from mapExn_aborts [of r records "entityExn L throws start" e, OF assms] obtain e' where
    "mapExn (entityExn L throws start) records = Inl e'" ..
  then show ?thesis by (simp add: calculateSatellitePositionsExn_def)
qed

lemma entityExn_aborts:
  assumes "throws (Twoline2satrec (line1 r) (line2 r)) = None"
    and "sampleLoopExn L throws (twoline2satrec L (line1 r) (line2 r)) start 0 [] = Inl e"
  shows "entityExn L throws start r = Inl e"
  using assms by (simp add: entityExn_def call_def)

lemma loopSamples_facts:
  "sorted_wrt (<) (map fst (loopSamples L satrec start 4 3600))
   \<and> (\<forall>t \<in> set (map fst (loopSamples L satrec start 4 3600)).
        start \<le> t \<and> t \<le> start + (4 - 1) * 3600)
   \<and> ((\<forall>i < 4. propagationOk L satrec (addHours start i)) \<longrightarrow>
        map fst (loopSamples L satrec start 4 3600) =
          [start, start + 3600, start + 7200, start + 10800])"
proof -
  let ?times = "map fst (loopSamples L satrec start 4 3600)"
  have inc: "sorted_wrt (<) ?times"
    by (rule loopSamples_increasing) simp
  have win: "\<forall>t \<in> set ?times. start \<le> t \<and> t \<le> start + (4 - 1) * 3600"
  proof
    fix t assume "t \<in> set ?times"
    with loopSamples_window [of 3600 t L satrec start 4]
    show "start \<le> t \<and> t \<le> start + (4 - 1) * 3600" by simp
  qed
  have full: "?times = [start, start + 3600, start + 7200, start + 10800]"
    if "\<forall>i < 4. propagationOk L satrec (addHours start i)"
  proof -
    from that have "\<forall>i \<in> set [0..<4]. propagationOk L satrec (sampleTime start 3600 i)"
      by (simp add: addHours_sampleTime)
    then have "filter (\<lambda>i. propagationOk L satrec (sampleTime start 3600 i)) [0..<4] = [0..<4]"
      by (simp only: filter_True)
    then show ?thesis
      by (simp add: times_loopSamples upt_4 sampleTime_def)
  qed
  from inc win full show ?thesis by blast
qed

lemma skipped_pass:
  assumes "throws (ToDate (addHours start i)) = None"
    and "throws (Propagate satrec (toDate L (addHours start i))) = None"
    and "\<not> propagationOk L satrec (addHours start i)"
  shows "sampleStepExn L throws satrec start i acc = Inr acc"
  using assms(3) unfolding sampleStepExn_cases [OF assms(1,2)] propagationOk_def guardOk_iff
  by (auto split: jsValue.splits)

lemma loopSamples_sampled_iff:
  assumes "i < 4"
  shows "(addHours start i \<in> set (map fst (loopSamples L satrec start 4 3600))) =
           guardOk (position (propagate L satrec (toDate L (addHours start i))))"
proof -
  have "(sampleTime start 3600 i \<in>
          sampleTime start 3600 ` {j. j < 4 \<and> propagationOk L satrec (sampleTime start 3600 j)})
        = propagationOk L satrec (sampleTime start 3600 i)"
    using assms by (auto dest: sampleTime_inj [rotated])
  then show ?thesis
    by (simp add: times_loopSamples addHours_sampleTime propagationOk_def)
qed

lemma loopSamples_length:
  "length (loopSamples L satrec start 4 3600) =
     length (filter (\<lambda>i. guardOk (position (propagate L satrec (toDate L (addHours start i)))))
               [0..<4])"
proof -
  have "length (map fst (loopSamples L satrec start 4 3600)) =
          length (filter (\<lambda>i. propagationOk L satrec (sampleTime start 3600 i)) [0..<4])"
    unfolding times_loopSamples by simp
  then show ?thesis
    by (simp add: propagationOk_def addHours_sampleTime)
qed

lemma conversion_throw_unpublished:
  assumes r: "r \<in> set records"
    and t0: "throws (Twoline2satrec (line1 r) (line2 r)) = None"
    and i: "i < 4"
    and t1: "throws (ToDate (addHours start i)) = None"
    and t2: "throws (Propagate (twoline2satrec L (line1 r) (line2 r))
                (toDate L (addHours start i))) = None"
    and p: "position (propagate L (twoline2satrec L (line1 r) (line2 r))
                (toDate L (addHours start i))) = JsObject v"
    and c: "convertExn L throws v (toDate L (addHours start i)) = Inl e"
  shows "\<exists>e'. calculateSatellitePositionsExn L throws start (Some records) st = (Some e', st)"
proof -
  let ?satrec = "twoline2satrec L (line1 r) (line2 r)"
  from p c have "sampleStepExn L throws ?satrec start i [] = Inl e"
    unfolding sampleStepExn_cases [OF t1 t2] by simp
  from sampleLoopExn_aborts [OF _ i this, of 0 "[]"]
  obtain e' where "sampleLoopExn L throws ?satrec start 0 [] = Inl e'" by auto
  from entityExn_aborts [OF t0 this] have "entityExn L throws start r = Inl e'" .
  from calculateSatellitePositionsExn_aborts [OF r this] show ?thesis .
qed

section \<open>The loop against the specification's build\<close>

lemma map_filter_cong_set:
  "(\<And>x. x \<in> set xs \<Longrightarrow> f x = g x) \<Longrightarrow> List.map_filter f xs = List.map_filter g xs"
  by (induction xs) (auto simp: map_filter_simps split: option.split)

text \<open>
  Where the loop and the specification's build agree: when every propagated position that
  is an object is a finite vector.
\<close>

lemma loopSamples_buildTrajectory:
  assumes "\<forall>i < n. \<forall>v. position (propagate L es (toDate L (sampleTime ws sp i))) = JsObject v
             \<longrightarrow> finiteVec v"
  shows "loopSamples L es ws n sp = buildTrajectory L es ws n sp"
  unfolding loopSamples_def buildTrajectory_def
proof (rule map_filter_cong_set)
  fix i assume "i \<in> set [0..<n]"
  then have "i < n" by simp
  with assms have fin: "\<And>v. position (propagate L es (toDate L (sampleTime ws sp i))) = JsObject v
             \<Longrightarrow> finiteVec v" by blast
  show "loopEpoch L es ws sp i =
         (let time_i = ws + real i * sp
          in case toRenderFrame L (position (propagate L es (toDate L time_i))) (toDate L time_i) of
               Inr pos \<Rightarrow> Some (time_i, pos)
             | Inl failure \<Rightarrow> None)"
    using fin
    by (cases "position (propagate L es (toDate L (sampleTime ws sp i)))")
       (simp_all add: loopEpoch_def toRenderFrame_def sampleTime_def Let_def)
qed

section \<open>Concrete runs\<close>

lemma demo_trajectory:
  "sampleLoop demoLib (''1 25544U'', ''2 25544'') 0 0 [] =
     [(0, (Finite 10, Finite 20, Finite 550000)),
      (3600, (Finite 10, Finite 20, Finite 550000)),
      (7200, (Finite 10, Finite 20, Finite 550000)),
      (10800, (Finite 10, Finite 20, Finite 550000))]"
  by (simp add: sampleLoop_loopSamples loopSamples_def upt_4 map_filter_simps
        loopEpoch_def convertPosition_def demoLib_def Let_def)

lemma demo_trajectory_bad: "sampleLoop demoLib (''bad'', ''bad'') 0 0 [] = []"
  by (simp add: sampleLoop_loopSamples loopSamples_def upt_4 map_filter_simps
        loopEpoch_def convertPosition_def demoLib_def Let_def)

lemma demo_trajectory_nan:
  "sampleLoop demoLib (''nan'', ''nan'') 0 0 [] =
     [(0, (NaN, NaN, NaN)), (3600, (NaN, NaN, NaN)),
      (7200, (NaN, NaN, NaN)), (10800, (NaN, NaN, NaN))]"
  by (simp add: sampleLoop_loopSamples loopSamples_def upt_4 map_filter_simps
        loopEpoch_def convertPosition_def demoLib_def Let_def)

lemma demo_trajectory_decaying:
  "sampleLoop demoLib (''decaying'', ''x'') 0 0 [] =
     [(0, (Finite 10, Finite 20, Finite 550000)),
      (3600, (Finite 10, Finite 20, Finite 550000))]"
  by (simp add: sampleLoop_loopSamples loopSamples_def upt_4 map_filter_simps
        loopEpoch_def convertPosition_def demoLib_def Let_def)

lemma demo_published:
  "calculateSatellitePositions demoLib 0 (Some [sat1, sat2])
     \<lparr>satelliteEntities = [], console = []\<rparr>
   = \<lparr>satelliteEntities =
        [\<lparr>entityName = ''SAT-1'',
          entityPosition =
            [(0, (Finite 10, Finite 20, Finite 550000)),
             (3600, (Finite 10, Finite 20, Finite 550000)),
             (7200, (Finite 10, Finite 20, Finite 550000)),
             (10800, (Finite 10, Finite 20, Finite 550000))]\<rparr>,
         \<lparr>entityName = ''SAT-2'', entityPosition = []\<rparr>],
      console = []\<rparr>"
  using demo_trajectory demo_trajectory_bad
  by (simp add: calculateSatellitePositions_def sat1_def sat2_def Let_def demoLib_def)

lemma demo_snapshot:
  "calculateSatellitePositions_snapshot demoLib (\<lambda>k. (0, 0)) [sat1, sat2]
     \<lparr>satellites = [], consoleErrors = []\<rparr>
   = \<lparr>satellites =
        [\<lparr>satelliteName = ''SAT-1'',
          satellitePosition =
            \<lparr>longitudeDeg = Finite 10, latitudeDeg = Finite 20, altitude = Finite 550000\<rparr>\<rparr>],
      consoleErrors = [''Something is wrong with the data'']\<rparr>"
  by (simp add: calculateSatellitePositions_snapshot_def snapshotOf_def sat1_def sat2_def
        Let_def demoLib_def enumerate_eq_zip upt_rec map_filter_simps)

lemma noThrows_all: "\<forall>c. noThrows c = None"
  by (simp add: noThrows_def)

lemma demo_exn_step:
  "sampleStepExn demoLib demoThrows (''nan'', ''nan'') 0 0 acc =
     Inl (JsException ''DeveloperError: normalized result is not a number'')"
  by (simp add: sampleStepExn_def convertExn_def call_def demoThrows_def demoLib_def
        addHours_def Let_def)

lemma demo_exn_loop:
  "sampleLoopExn demoLib demoThrows (''nan'', ''nan'') 0 0 [] =
     Inl (JsException ''DeveloperError: normalized result is not a number'')"
  by (rule sampleLoopExn_step_Inl) (simp_all add: demo_exn_step)

lemma demo_exn_entity:
  "entityExn demoLib demoThrows 0 sat3 =
     Inl (JsException ''DeveloperError: normalized result is not a number'')"
proof (rule entityExn_aborts)
  show "demoThrows (Twoline2satrec (line1 sat3) (line2 sat3)) = None"
    by (simp add: demoThrows_def)
  show "sampleLoopExn demoLib demoThrows (twoline2satrec demoLib (line1 sat3) (line2 sat3)) 0 0 []
          = Inl (JsException ''DeveloperError: normalized result is not a number'')"
    using demo_exn_loop by (simp add: sat3_def demoLib_def)
qed

lemma demo_exn_ok_loop:
  "sampleLoopExn demoLib demoThrows (''1 25544U'', ''2 25544'') 0 0 [] =
     Inr [(0, (Finite 10, Finite 20, Finite 550000)),
          (3600, (Finite 10, Finite 20, Finite 550000)),
          (7200, (Finite 10, Finite 20, Finite 550000)),
          (10800, (Finite 10, Finite 20, Finite 550000))]"
  by (simp add: sampleLoopExn.simps sampleStepExn_def convertExn_def call_def demoThrows_def
        demoLib_def addHours_def addSample_def Let_def)

lemma demo_exn_published:
  "calculateSatellitePositionsExn demoLib demoThrows 0 (Some [sat1, sat3])
     \<lparr>satelliteEntities = [\<lparr>entityName = ''SAT-0'', entityPosition = []\<rparr>], console = []\<rparr>
   = (Some (JsException ''DeveloperError: normalized result is not a number''),
      \<lparr>satelliteEntities = [\<lparr>entityName = ''SAT-0'', entityPosition = []\<rparr>], console = []\<rparr>)"
proof -
  have "entityExn demoLib demoThrows 0 sat1 =
          Inr \<lparr>entityName = ''SAT-1'',
               entityPosition =
                 [(0, (Finite 10, Finite 20, Finite 550000)),
                  (3600, (Finite 10, Finite 20, Finite 550000)),
                  (7200, (Finite 10, Finite 20, Finite 550000)),
                  (10800, (Finite 10, Finite 20, Finite 550000))]\<rparr>"
    using demo_exn_ok_loop
    by (simp add: entityExn_def call_def demoThrows_def sat1_def demoLib_def)
  with demo_exn_entity show ?thesis
    by (simp add: calculateSatellitePositionsExn_def)
qed

lemma demo_spec_build_nan: "buildTrajectory demoLib (''nan'', ''nan'') 0 4 3600 = []"
  by (simp add: buildTrajectory_def toRenderFrame_def upt_4 map_filter_simps demoLib_def Let_def)

lemma demo_spec_build_spacing0:
  "map fst (buildTrajectory demoLib (''1 25544U'', ''2 25544'') 0 2 0) = [0, 0]"
  by (simp add: buildTrajectory_def toRenderFrame_def upt_rec [of 0] numeral_2_eq_2
        map_filter_simps demoLib_def Let_def)

section \<open>Claims\<close>

text \<open>
  C1, as stated, fails on the clause that an index whose conversion fails is skipped without
  aborting the build. The component has no failing conversion and no \<^verbatim>\<open>try\<close>. For
  the element set \<open>nan\<close> of the stand-in library, whose propagated vector has \<^verbatim>\<open>NaN\<close>
  components, the build of the specification has no epoch; the loop samples all four
  instants when the library calls return, and when \<^verbatim>\<open>Cartesian3.fromDegrees\<close> throws on
  \<^verbatim>\<open>NaN\<close> the loop ends with the exception, and the call for the records \<open>SAT-1\<close> and
  \<open>SAT-3\<close> publishes nothing, not even \<open>SAT-1\<close>. Nor does the claim hold for every
  window: with a spacing of 0 the two epochs of the specification's build have the same
  time.
\<close>

theorem conversion_failure_not_skipped:
  "buildTrajectory demoLib (''nan'', ''nan'') 0 4 3600 = []
   \<and> sampleLoopExn demoLib noThrows (''nan'', ''nan'') 0 0 [] =
       Inr [(0, (NaN, NaN, NaN)), (3600, (NaN, NaN, NaN)),
            (7200, (NaN, NaN, NaN)), (10800, (NaN, NaN, NaN))]
   \<and> sampleLoopExn demoLib demoThrows (''nan'', ''nan'') 0 0 [] =
       Inl (JsException ''DeveloperError: normalized result is not a number'')
   \<and> calculateSatellitePositionsExn demoLib demoThrows 0 (Some [sat1, sat3])
       \<lparr>satelliteEntities = [\<lparr>entityName = ''SAT-0'', entityPosition = []\<rparr>], console = []\<rparr>
     = (Some (JsException ''DeveloperError: normalized result is not a number''),
        \<lparr>satelliteEntities = [\<lparr>entityName = ''SAT-0'', entityPosition = []\<rparr>], console = []\<rparr>)
   \<and> map fst (buildTrajectory demoLib (''1 25544U'', ''2 25544'') 0 2 0) = [0, 0]"
  using demo_spec_build_nan demo_exn_loop demo_exn_published demo_spec_build_spacing0
    sampleLoopExn_no_throw [OF noThrows_all, of demoLib "(''nan'', ''nan'')" 0]
  by (simp add: demo_trajectory_nan)

text \<open>
  C1, amended. The sample count and the spacing are constants of the loop, 4 and 3600
  seconds. A loop that ends without an exception has produced \<open>loopSamples\<close>: for
  \<open>i = 0, 1, 2, 3\<close> in this order the time \<open>start + i\<close> hours, the position propagated
  there and, when this position is an object, the pair of the time and the converted
  position; its times are strictly increasing and lie between \<open>start\<close> and
  \<open>start + (4 - 1) * 3600\<close>; when all four propagations yield an object the epochs are at
  \<open>start\<close>, \<open>start + 3600\<close>, \<open>start + 7200\<close>, \<open>start + 10800\<close>; and when every
  propagated object is a finite vector the result is the specification's
  \<open>buildTrajectory\<close> for 4 samples 3600 seconds apart. With a library that never throws
  the loop always ends so. A pass whose propagated position is not an object leaves the
  property as it was and the loop goes on. A pass in which a library call throws ends the
  loop with an exception, and a record whose callback throws makes the whole call return
  with an exception and the state as it was.
\<close>

theorem completed_build_epochs:
  "(sampleLoopExn L throws satrec start 0 [] = Inr trajectory \<longrightarrow>
       trajectory = loopSamples L satrec start 4 3600
     \<and> sorted_wrt (<) (map fst trajectory)
     \<and> (\<forall>t \<in> set (map fst trajectory). start \<le> t \<and> t \<le> start + (4 - 1) * 3600)
     \<and> ((\<forall>i < 4. propagationOk L satrec (addHours start i)) \<longrightarrow>
          map fst trajectory = [start, start + 3600, start + 7200, start + 10800])
     \<and> ((\<forall>i < 4. \<forall>v. position (propagate L satrec (toDate L (addHours start i))) = JsObject v
             \<longrightarrow> finiteVec v) \<longrightarrow>
          trajectory = buildTrajectory L satrec start 4 3600))
   \<and> ((\<forall>c. throws c = None) \<longrightarrow>
        sampleLoopExn L throws satrec start 0 [] = Inr (loopSamples L satrec start 4 3600))
   \<and> (throws (ToDate (addHours start i)) = None
        \<and> throws (Propagate satrec (toDate L (addHours start i))) = None
        \<and> \<not> propagationOk L satrec (addHours start i) \<longrightarrow>
        sampleStepExn L throws satrec start i acc = Inr acc)
   \<and> (i < 4 \<and> sampleStepExn L throws satrec start i [] = Inl e \<longrightarrow>
        (\<exists>e'. sampleLoopExn L throws satrec start 0 [] = Inl e'))
   \<and> (r \<in> set records \<and> entityExn L throws start r = Inl e \<longrightarrow>
        (\<exists>e'. calculateSatellitePositionsExn L throws start (Some records) st = (Some e', st)))"
proof -
  have completed:
    "trajectory = loopSamples L satrec start 4 3600
     \<and> sorted_wrt (<) (map fst trajectory)
     \<and> (\<forall>t \<in> set (map fst trajectory). start \<le> t \<and> t \<le> start + (4 - 1) * 3600)
     \<and> ((\<forall>i < 4. propagationOk L satrec (addHours start i)) \<longrightarrow>
          map fst trajectory = [start, start + 3600, start + 7200, start + 10800])
     \<and> ((\<forall>i < 4. \<forall>v. position (propagate L satrec (toDate L (addHours start i))) = JsObject v
             \<longrightarrow> finiteVec v) \<longrightarrow>
          trajectory = buildTrajectory L satrec start 4 3600)"
    if run: "sampleLoopExn L throws satrec start 0 [] = Inr trajectory"
  proof -
    from sampleLoopExn_Inr [OF run] have eq: "trajectory = loopSamples L satrec start 4 3600"
      by (simp only: sampleLoop_loopSamples)
    have spec: "trajectory = buildTrajectory L satrec start 4 3600"
      if "\<forall>i < 4. \<forall>v. position (propagate L satrec (toDate L (addHours start i))) = JsObject v
             \<longrightarrow> finiteVec v"
    proof -
      from that have "\<forall>i < 4. \<forall>v.
          position (propagate L satrec (toDate L (sampleTime start 3600 i))) = JsObject v
             \<longrightarrow> finiteVec v"
        by (simp add: addHours_sampleTime)
      from loopSamples_buildTrajectory [OF this] show ?thesis
        by (simp only: eq)
    qed
    note facts = loopSamples_facts [of L satrec start, unfolded eq [symmetric]]
    from facts have inc: "sorted_wrt (<) (map fst trajectory)"
      by (rule conjunct1)
    from facts have win:
      "\<forall>t \<in> set (map fst trajectory). start \<le> t \<and> t \<le> start + (4 - 1) * 3600"
      by (elim conjE)
    from facts have full:
      "(\<forall>i < 4. propagationOk L satrec (addHours start i)) \<longrightarrow>
          map fst trajectory = [start, start + 3600, start + 7200, start + 10800]"
      by (elim conjE)
    show ?thesis
      by (rule conjI [OF eq conjI [OF inc conjI [OF win conjI [OF full impI [OF spec]]]]])
  qed
  have returns: "sampleLoopExn L throws satrec start 0 [] = Inr (loopSamples L satrec start 4 3600)"
    if "\<forall>c. throws c = None"
    using sampleLoopExn_no_throw [OF that, of L satrec start]
    by (simp only: sampleLoop_loopSamples)
  have skip: "sampleStepExn L throws satrec start i acc = Inr acc"
    if "throws (ToDate (addHours start i)) = None
        \<and> throws (Propagate satrec (toDate L (addHours start i))) = None
        \<and> \<not> propagationOk L satrec (addHours start i)"
    using that by (blast intro: skipped_pass)
  have abort: "\<exists>e'. sampleLoopExn L throws satrec start 0 [] = Inl e'"
    if "i < 4 \<and> sampleStepExn L throws satrec start i [] = Inl e"
    using that sampleLoopExn_aborts [of 0 i L throws satrec start e "[]"] by simp
  have unpublished:
    "\<exists>e'. calculateSatellitePositionsExn L throws start (Some records) st = (Some e', st)"
    if "r \<in> set records \<and> entityExn L throws start r = Inl e"
    using that by (blast intro: calculateSatellitePositionsExn_aborts)
  show ?thesis
    by (rule conjI [OF impI [OF completed] conjI [OF impI [OF returns]
          conjI [OF impI [OF skip] conjI [OF impI [OF abort] impI [OF unpublished]]]]])
qed

theorem completed_build_epochs_witness:
  "sampleLoopExn demoLib noThrows (''1 25544U'', ''2 25544'') 0 0 [] =
     Inr [(0, (Finite 10, Finite 20, Finite 550000)),
          (3600, (Finite 10, Finite 20, Finite 550000)),
          (7200, (Finite 10, Finite 20, Finite 550000)),
          (10800, (Finite 10, Finite 20, Finite 550000))]
   \<and> propagationOk demoLib (''1 25544U'', ''2 25544'') (addHours 0 0)
   \<and> propagationOk demoLib (''1 25544U'', ''2 25544'') (addHours 0 1)
   \<and> propagationOk demoLib (''1 25544U'', ''2 25544'') (addHours 0 2)
   \<and> propagationOk demoLib (''1 25544U'', ''2 25544'') (addHours 0 3)
   \<and> map fst [(0::real, (Finite 10, Finite 20, Finite 550000)),
          (3600, (Finite 10, Finite 20, Finite 550000)),
          (7200, (Finite 10, Finite 20, Finite 550000)),
          (10800, (Finite 10, Finite 20, Finite 550000))] = [0, 3600, 7200, 10800]
   \<and> [(0, (Finite 10, Finite 20, Finite 550000)),
          (3600, (Finite 10, Finite 20, Finite 550000)),
          (7200, (Finite 10, Finite 20, Finite 550000)),
          (10800, (Finite 10, Finite 20, Finite 550000))]
       = buildTrajectory demoLib (''1 25544U'', ''2 25544'') 0 4 3600
   \<and> demoThrows (ToDate (addHours 0 2)) = None
   \<and> demoThrows (Propagate (''decaying'', ''x'') (toDate demoLib (addHours 0 2))) = None
   \<and> \<not> propagationOk demoLib (''decaying'', ''x'') (addHours 0 2)
   \<and> sampleStepExn demoLib demoThrows (''decaying'', ''x'') 0 2
       [(0, (Finite 10, Finite 20, Finite 550000))]
       = Inr [(0, (Finite 10, Finite 20, Finite 550000))]
   \<and> (0::nat) < 4
   \<and> sampleStepExn demoLib demoThrows (''nan'', ''nan'') 0 0 [] =
       Inl (JsException ''DeveloperError: normalized result is not a number'')
   \<and> (\<exists>e'. sampleLoopExn demoLib demoThrows (''nan'', ''nan'') 0 0 [] = Inl e')
   \<and> sat3 \<in> set [sat1, sat3]
   \<and> entityExn demoLib demoThrows 0 sat3 =
       Inl (JsException ''DeveloperError: normalized result is not a number'')
   \<and> (\<exists>e'. calculateSatellitePositionsExn demoLib demoThrows 0 (Some [sat1, sat3])
              \<lparr>satelliteEntities = [], console = []\<rparr>
            = (Some e', \<lparr>satelliteEntities = [], console = []\<rparr>))"
proof -
  let ?sat = "(''1 25544U'', ''2 25544'')"
  let ?traj = "[(0::real, (Finite 10, Finite 20, Finite 550000)),
          (3600, (Finite 10, Finite 20, Finite 550000)),
          (7200, (Finite 10, Finite 20, Finite 550000)),
          (10800, (Finite 10, Finite 20, Finite 550000))]"
  let ?exn = "JsException ''DeveloperError: normalized result is not a number''"
  have run: "sampleLoopExn demoLib noThrows ?sat 0 0 [] = Inr ?traj"
    using sampleLoopExn_no_throw [OF noThrows_all, of demoLib ?sat 0]
    by (simp add: demo_trajectory)
  have each: "propagationOk demoLib ?sat (addHours 0 i)" for i
    by (simp add: propagationOk_def guardOk_def demoLib_def)
  then have ok: "\<forall>i < 4. propagationOk demoLib ?sat (addHours 0 i)" by simp
  have fin: "\<forall>i < 4. \<forall>v. position (propagate demoLib ?sat (toDate demoLib (addHours 0 i)))
               = JsObject v \<longrightarrow> finiteVec v"
    by (auto simp: demoLib_def)
  note T1 = completed_build_epochs [of demoLib noThrows ?sat 0 ?traj 0 "[]" ?exn sat3 "[]"
      "\<lparr>satelliteEntities = [], console = []\<rparr>"]
  from T1 run ok have "map fst ?traj = [0, 0 + 3600, 0 + 7200, 0 + 10800]" by blast
  then have times: "map fst ?traj = [0, 3600, 7200, 10800]" by simp
  from T1 run fin have spec: "?traj = buildTrajectory demoLib ?sat 0 4 3600" by blast
  have t1: "demoThrows (ToDate (addHours 0 2)) = None"
    and t2: "demoThrows (Propagate (''decaying'', ''x'') (toDate demoLib (addHours 0 2))) = None"
    by (simp_all add: demoThrows_def)
  have nok: "\<not> propagationOk demoLib (''decaying'', ''x'') (addHours 0 2)"
    by (simp add: propagationOk_def guardOk_def demoLib_def addHours_def)
  note T2 = completed_build_epochs [of demoLib demoThrows "(''decaying'', ''x'')" 0 "[]" 2
      "[(0, (Finite 10, Finite 20, Finite 550000))]" ?exn sat3 "[]"
      "\<lparr>satelliteEntities = [], console = []\<rparr>"]
  from T2 t1 t2 nok
  have skip: "sampleStepExn demoLib demoThrows (''decaying'', ''x'') 0 2
       [(0, (Finite 10, Finite 20, Finite 550000))]
       = Inr [(0, (Finite 10, Finite 20, Finite 550000))]"
    by blast
  note T3 = completed_build_epochs [of demoLib demoThrows "(''nan'', ''nan'')" 0 "[]" 0
      "[]" ?exn sat3 "[sat1, sat3]" "\<lparr>satelliteEntities = [], console = []\<rparr>"]
  have step: "sampleStepExn demoLib demoThrows (''nan'', ''nan'') 0 0 [] = Inl ?exn"
    by (rule demo_exn_step)
  from T3 step have abort: "\<exists>e'. sampleLoopExn demoLib demoThrows (''nan'', ''nan'') 0 0 [] = Inl e'"
    by simp
  have mem: "sat3 \<in> set [sat1, sat3]" by simp
  from T3 mem demo_exn_entity
  have unpub: "\<exists>e'. calculateSatellitePositionsExn demoLib demoThrows 0 (Some [sat1, sat3])
              \<lparr>satelliteEntities = [], console = []\<rparr>
            = (Some e', \<lparr>satelliteEntities = [], console = []\<rparr>)"
    by blast
  from run each times spec t1 t2 nok skip step abort mem demo_exn_entity unpub
  show ?thesis by (intro conjI) simp_all
qed

text \<open>
  C5. Every sample of a trajectory carries the position that \<^verbatim>\<open>Cartesian3.fromDegrees\<close>
  returns for the longitude and latitude in degrees and the geodetic height times 1000,
  the geodetic coordinates being those of the propagated position at the sample's date.
  In the snapshot component every published satellite has as altitude the geodetic height
  of its propagated position times 1000. For a finite height of \<open>h\<close> kilometres this
  product is the number \<open>h * 1000\<close>, the height in metres.
\<close>

theorem height_kilometres_to_metres:
  "(\<forall>s \<in> set (sampleLoop L satrec start 0 []).
      \<exists>v. position (propagate L satrec (toDate L (fst s))) = JsObject v
        \<and> snd s =
            fromDegrees L
              (degreesLong L (longitude (eciToGeodetic L v (gstime L (toDate L (fst s))))))
              (degreesLat L (latitude (eciToGeodetic L v (gstime L (toDate L (fst s))))))
              (mulNumber (height (eciToGeodetic L v (gstime L (toDate L (fst s))))) (Finite 1000)))
   \<and> (\<forall>s \<in> set (satellites (calculateSatellitePositions_snapshot L dates tleData st')).
        \<exists>k v. k < length tleData
          \<and> position (propagate L (twoline2satrec L (line1 (tleData ! k)) (line2 (tleData ! k)))
                (fst (dates k))) = JsObject v
          \<and> satelliteName s = name (tleData ! k)
          \<and> altitude (satellitePosition s) =
              mulNumber (height (eciToGeodetic L v (gstime L (snd (dates k))))) (Finite 1000))
   \<and> mulNumber (Finite h) (Finite 1000) = Finite (h * 1000)"
proof (intro conjI ballI)
  fix s assume "s \<in> set (sampleLoop L satrec start 0 [])"
  then have "s \<in> set (loopSamples L satrec start 4 3600)"
    by (simp only: sampleLoop_loopSamples)
  from sample_in_loopSamples [OF this]
  show "\<exists>v. position (propagate L satrec (toDate L (fst s))) = JsObject v
        \<and> snd s =
            fromDegrees L
              (degreesLong L (longitude (eciToGeodetic L v (gstime L (toDate L (fst s))))))
              (degreesLat L (latitude (eciToGeodetic L v (gstime L (toDate L (fst s))))))
              (mulNumber (height (eciToGeodetic L v (gstime L (toDate L (fst s))))) (Finite 1000))"
    by (simp add: convertPosition_def Let_def)
next
  fix s assume "s \<in> set (satellites (calculateSatellitePositions_snapshot L dates tleData st'))"
  then show "\<exists>k v. k < length tleData
          \<and> position (propagate L (twoline2satrec L (line1 (tleData ! k)) (line2 (tleData ! k)))
                (fst (dates k))) = JsObject v
          \<and> satelliteName s = name (tleData ! k)
          \<and> altitude (satellitePosition s) =
              mulNumber (height (eciToGeodetic L v (gstime L (snd (dates k))))) (Finite 1000)"
    by (rule snapshot_satellites)
next
  show "mulNumber (Finite h) (Finite 1000) = Finite (h * 1000)" by simp
qed

theorem height_kilometres_to_metres_witness:
  "(0, (Finite 10, Finite 20, Finite 550000))
     \<in> set (sampleLoop demoLib (''1 25544U'', ''2 25544'') 0 0 [])
   \<and> (\<exists>v. position (propagate demoLib (''1 25544U'', ''2 25544'') (toDate demoLib 0)) = JsObject v
         \<and> height (eciToGeodetic demoLib v (gstime demoLib (toDate demoLib 0))) = Finite 550
         \<and> (Finite 10, Finite 20, Finite 550000) =
             fromDegrees demoLib
               (degreesLong demoLib
                  (longitude (eciToGeodetic demoLib v (gstime demoLib (toDate demoLib 0)))))
               (degreesLat demoLib
                  (latitude (eciToGeodetic demoLib v (gstime demoLib (toDate demoLib 0)))))
               (mulNumber (height (eciToGeodetic demoLib v (gstime demoLib (toDate demoLib 0))))
                  (Finite 1000)))
   \<and> \<lparr>satelliteName = ''SAT-1'',
       satellitePosition =
         \<lparr>longitudeDeg = Finite 10, latitudeDeg = Finite 20, altitude = Finite 550000\<rparr>\<rparr>
       \<in> set (satellites (calculateSatellitePositions_snapshot demoLib (\<lambda>k. (0, 0)) [sat1, sat2]
                  \<lparr>satellites = [], consoleErrors = []\<rparr>))
   \<and> (\<exists>k v. k < length [sat1, sat2]
         \<and> position (propagate demoLib
               (twoline2satrec demoLib (line1 ([sat1, sat2] ! k)) (line2 ([sat1, sat2] ! k))) 0)
             = JsObject v
         \<and> ''SAT-1'' = name ([sat1, sat2] ! k)
         \<and> Finite 550000 =
             mulNumber (height (eciToGeodetic demoLib v (gstime demoLib 0))) (Finite 1000))
   \<and> mulNumber (Finite 550) (Finite 1000) = Finite 550000"
proof -
  let ?s = "(0::real, (Finite 10, Finite 20, Finite 550000))"
  let ?sat = "\<lparr>satelliteName = ''SAT-1'',
       satellitePosition =
         \<lparr>longitudeDeg = Finite 10, latitudeDeg = Finite 20, altitude = Finite 550000\<rparr>\<rparr>"
  have mem: "?s \<in> set (sampleLoop demoLib (''1 25544U'', ''2 25544'') 0 0 [])"
    by (simp add: demo_trajectory)
  have mem': "?sat \<in> set (satellites (calculateSatellitePositions_snapshot demoLib
                  (\<lambda>k. (0, 0)) [sat1, sat2] \<lparr>satellites = [], consoleErrors = []\<rparr>))"
    by (simp add: demo_snapshot)
  note T = height_kilometres_to_metres [of demoLib "(''1 25544U'', ''2 25544'')" 0
      "\<lambda>k. (0, 0)" "[sat1, sat2]" "\<lparr>satellites = [], consoleErrors = []\<rparr>" 550]
  from T have all: "\<forall>s \<in> set (sampleLoop demoLib (''1 25544U'', ''2 25544'') 0 0 []).
      \<exists>v. position (propagate demoLib (''1 25544U'', ''2 25544'') (toDate demoLib (fst s))) = JsObject v
        \<and> snd s =
            fromDegrees demoLib
              (degreesLong demoLib (longitude (eciToGeodetic demoLib v (gstime demoLib (toDate demoLib (fst s))))))
              (degreesLat demoLib (latitude (eciToGeodetic demoLib v (gstime demoLib (toDate demoLib (fst s))))))
              (mulNumber (height (eciToGeodetic demoLib v (gstime demoLib (toDate demoLib (fst s))))) (Finite 1000))"
    by (rule conjunct1)
  from T have all': "\<forall>s \<in> set (satellites (calculateSatellitePositions_snapshot demoLib
                  (\<lambda>k. (0, 0)) [sat1, sat2] \<lparr>satellites = [], consoleErrors = []\<rparr>)).
        \<exists>k v. k < length [sat1, sat2]
          \<and> position (propagate demoLib
                (twoline2satrec demoLib (line1 ([sat1, sat2] ! k)) (line2 ([sat1, sat2] ! k)))
                (fst (0::real, 0::real))) = JsObject v
          \<and> satelliteName s = name ([sat1, sat2] ! k)
          \<and> altitude (satellitePosition s) =
              mulNumber (height (eciToGeodetic demoLib v (gstime demoLib (snd (0::real, 0::real))))) (Finite 1000)"
    by (elim conjE)
  from T have arith: "mulNumber (Finite 550) (Finite 1000) = Finite (550 * 1000)"
    by (elim conjE)
  from bspec [OF all mem] obtain v where
    v: "position (propagate demoLib (''1 25544U'', ''2 25544'') (toDate demoLib 0)) = JsObject v"
    and s: "(Finite 10, Finite 20, Finite 550000) =
            fromDegrees demoLib
              (degreesLong demoLib (longitude (eciToGeodetic demoLib v (gstime demoLib (toDate demoLib 0)))))
              (degreesLat demoLib (latitude (eciToGeodetic demoLib v (gstime demoLib (toDate demoLib 0)))))
              (mulNumber (height (eciToGeodetic demoLib v (gstime demoLib (toDate demoLib 0)))) (Finite 1000))"
    by auto
  from v have "v = EciVec3 (Finite 10) (Finite 20) (Finite 550)"
    by (simp add: demoLib_def)
  then have h: "height (eciToGeodetic demoLib v (gstime demoLib (toDate demoLib 0))) = Finite 550"
    by (simp add: demoLib_def)
  from bspec [OF all' mem']
  have snap: "\<exists>k v. k < length [sat1, sat2]
         \<and> position (propagate demoLib
               (twoline2satrec demoLib (line1 ([sat1, sat2] ! k)) (line2 ([sat1, sat2] ! k))) 0)
             = JsObject v
         \<and> ''SAT-1'' = name ([sat1, sat2] ! k)
         \<and> Finite 550000 =
             mulNumber (height (eciToGeodetic demoLib v (gstime demoLib 0))) (Finite 1000)"
    by simp
  from arith have "mulNumber (Finite 550) (Finite 1000) = Finite 550000" by simp
  with mem v h s mem' snap show ?thesis by blast
qed

text \<open>
  C10. The sampling parameters are constants of the loop: whatever the element set, the
  library and the start date, a trajectory has at most 4 samples, each at \<open>start\<close> plus
  0, 1, 2 or 3 hours, hence between \<open>start\<close> and three hours after it. The same holds
  for the property of every entity that \<^verbatim>\<open>calculateSatellitePositions\<close> publishes. No
  clock reading is an argument of the build.
\<close>

theorem fixed_sampling_window:
  "length (sampleLoop L satrec start 0 []) \<le> 4
   \<and> (\<forall>t \<in> set (map fst (sampleLoop L satrec start 0 [])).
        t \<in> addHours start ` {0..<4} \<and> start \<le> t \<and> t \<le> addHours start 3)
   \<and> (\<forall>e \<in> set (satelliteEntities (calculateSatellitePositions L start (Some records) st)).
        length (entityPosition e) \<le> 4
        \<and> (\<forall>t \<in> set (map fst (entityPosition e)).
             t \<in> addHours start ` {0..<4} \<and> start \<le> t \<and> t \<le> addHours start 3))"
proof -
  have len: "length (sampleLoop L s' start 0 []) \<le> 4" for s'
    by (simp only: sampleLoop_loopSamples length_loopSamples)
  have win: "t \<in> addHours start ` {0..<4} \<and> start \<le> t \<and> t \<le> addHours start 3"
    if "t \<in> set (map fst (sampleLoop L s' start 0 []))" for s' t
  proof -
    from that have t: "t \<in> set (map fst (loopSamples L s' start 4 3600))"
      by (simp only: sampleLoop_loopSamples)
    with times_subset [of L s' start 4 3600] have "t \<in> sampleTime start 3600 ` {0..<4}"
      by blast
    then have "t \<in> addHours start ` {0..<4}"
      by (simp add: addHours_sampleTime [abs_def])
    moreover from loopSamples_window [of 3600 t L s' start 4] t
    have "start \<le> t \<and> t \<le> addHours start 3"
      by (simp add: addHours_def)
    ultimately show ?thesis by simp
  qed
  have ent: "length (entityPosition e) \<le> 4
        \<and> (\<forall>t \<in> set (map fst (entityPosition e)).
             t \<in> addHours start ` {0..<4} \<and> start \<le> t \<and> t \<le> addHours start 3)"
    if "e \<in> set (satelliteEntities (calculateSatellitePositions L start (Some records) st))" for e
  proof -
    from that have "\<exists>s'. entityPosition e = sampleLoop L s' start 0 []"
      unfolding published_entities by auto
    then obtain s' where "entityPosition e = sampleLoop L s' start 0 []" ..
    with len win show ?thesis by auto
  qed
  from len win ent show ?thesis by blast
qed

theorem fixed_sampling_window_witness:
  "length (sampleLoop demoLib (''1 25544U'', ''2 25544'') 0 0 []) \<le> 4
   \<and> 10800 \<in> set (map fst (sampleLoop demoLib (''1 25544U'', ''2 25544'') 0 0 []))
   \<and> (10800::real) \<in> addHours 0 ` {0..<4} \<and> (0::real) \<le> 10800 \<and> 10800 \<le> addHours 0 3
   \<and> \<lparr>entityName = ''SAT-2'', entityPosition = []\<rparr>
       \<in> set (satelliteEntities (calculateSatellitePositions demoLib 0 (Some [sat1, sat2])
                  \<lparr>satelliteEntities = [], console = []\<rparr>))
   \<and> length (entityPosition
        (\<lparr>entityName = ''SAT-2'', entityPosition = []\<rparr>
           :: (number \<times> number \<times> number) SatelliteEntity)) \<le> 4"
proof -
  let ?e = "\<lparr>entityName = ''SAT-2'', entityPosition = []\<rparr>
              :: (number \<times> number \<times> number) SatelliteEntity"
  note T = fixed_sampling_window [of demoLib "(''1 25544U'', ''2 25544'')" 0 "[sat1, sat2]"
      "\<lparr>satelliteEntities = [], console = []\<rparr>"]
  have mem: "10800 \<in> set (map fst (sampleLoop demoLib (''1 25544U'', ''2 25544'') 0 0 []))"
    by (simp add: demo_trajectory)
  have mem': "?e \<in> set (satelliteEntities (calculateSatellitePositions demoLib 0
                  (Some [sat1, sat2]) \<lparr>satelliteEntities = [], console = []\<rparr>))"
    by (simp add: demo_published)
  from T have len: "length (sampleLoop demoLib (''1 25544U'', ''2 25544'') 0 0 []) \<le> 4"
    by (rule conjunct1)
  from T have win: "\<forall>t \<in> set (map fst (sampleLoop demoLib (''1 25544U'', ''2 25544'') 0 0 [])).
        t \<in> addHours 0 ` {0..<4} \<and> 0 \<le> t \<and> t \<le> addHours 0 3"
    by (elim conjE)
  from T have ent: "\<forall>e \<in> set (satelliteEntities (calculateSatellitePositions demoLib 0
                  (Some [sat1, sat2]) \<lparr>satelliteEntities = [], console = []\<rparr>)).
        length (entityPosition e) \<le> 4
        \<and> (\<forall>t \<in> set (map fst (entityPosition e)).
             t \<in> addHours 0 ` {0..<4} \<and> 0 \<le> t \<and> t \<le> addHours 0 3)"
    by (elim conjE)
  from bspec [OF ent mem'] have "length (entityPosition ?e) \<le> 4" by (rule conjunct1)
  with bspec [OF win mem] len mem mem' show ?thesis by blast
qed

text \<open>
  C6, as stated, fails: the guard tests that the propagated position is a truthy object,
  not that its components are finite, and the conversion has no failure that the loop
  could skip. For the vector of \<^verbatim>\<open>NaN\<close> components of the element set \<open>nan\<close>: when the
  library calls return, the conversion returns a position and all four instants are
  sampled; when \<^verbatim>\<open>Cartesian3.fromDegrees\<close> throws on \<^verbatim>\<open>NaN\<close>, the conversion ends with
  the exception and so does the loop.
\<close>

theorem nonfinite_vector_is_sampled:
  "\<not> finiteVec (EciVec3 NaN NaN NaN)
   \<and> position (propagate demoLib (''nan'', ''nan'') (toDate demoLib (addHours 0 0))) =
       JsObject (EciVec3 NaN NaN NaN)
   \<and> convertExn demoLib noThrows (EciVec3 NaN NaN NaN) 0 = Inr (NaN, NaN, NaN)
   \<and> sampleLoopExn demoLib noThrows (''nan'', ''nan'') 0 0 [] =
       Inr [(0, (NaN, NaN, NaN)), (3600, (NaN, NaN, NaN)),
            (7200, (NaN, NaN, NaN)), (10800, (NaN, NaN, NaN))]
   \<and> convertExn demoLib demoThrows (EciVec3 NaN NaN NaN) 0 =
       Inl (JsException ''DeveloperError: normalized result is not a number'')
   \<and> sampleLoopExn demoLib demoThrows (''nan'', ''nan'') 0 0 [] =
       Inl (JsException ''DeveloperError: normalized result is not a number'')"
proof -
  have "convertExn demoLib noThrows (EciVec3 NaN NaN NaN) 0 = Inr (NaN, NaN, NaN)"
    by (simp add: convertExn_no_throw [OF noThrows_all] convertPosition_def demoLib_def)
  moreover have "convertExn demoLib demoThrows (EciVec3 NaN NaN NaN) 0 =
       Inl (JsException ''DeveloperError: normalized result is not a number'')"
    by (simp add: convertExn_def call_def demoThrows_def demoLib_def)
  moreover have "position (propagate demoLib (''nan'', ''nan'') (toDate demoLib (addHours 0 0))) =
       JsObject (EciVec3 NaN NaN NaN)"
    by (simp add: demoLib_def)
  ultimately show ?thesis
    using demo_exn_loop sampleLoopExn_no_throw [OF noThrows_all, of demoLib "(''nan'', ''nan'')" 0]
    by (simp add: demo_trajectory_nan)
qed

text \<open>
  C6, amended. The guard holds exactly for an object, whatever its components. The
  conversion makes no test of its own: when no library call throws it returns a position
  for every vector. A pass (whose calls before the guard return) leaves the property as it
  was when the propagated position is not an object, appends the sample when the
  conversion returns, and ends with the exception when the conversion throws. In a loop
  that ends without an exception, the instant \<open>start + j\<close> hours has a sample exactly
  when the guard holds for the position propagated there, one sample for each such
  instant. When the conversion throws at an instant of some record, the call returns with
  an exception and the state as it was: nothing is published.
\<close>

theorem guard_alone_decides_skipping:
  "(guardOk p = (\<exists>w. p = JsObject w))
   \<and> ((\<forall>c. throws c = None) \<longrightarrow>
        convertExn L throws v jsDate = Inr (convertPosition L v jsDate))
   \<and> (throws (ToDate (addHours start i)) = None
        \<and> throws (Propagate satrec (toDate L (addHours start i))) = None \<longrightarrow>
        sampleStepExn L throws satrec start i acc =
          (case position (propagate L satrec (toDate L (addHours start i))) of
             JsObject w \<Rightarrow>
               (case convertExn L throws w (toDate L (addHours start i)) of
                  Inl x \<Rightarrow> Inl x
                | Inr pos \<Rightarrow> Inr (acc @ [(addHours start i, pos)]))
           | _ \<Rightarrow> Inr acc))
   \<and> (sampleLoopExn L throws satrec start 0 [] = Inr trajectory \<longrightarrow>
        (\<forall>j < 4. (addHours start j \<in> set (map fst trajectory)) =
                  guardOk (position (propagate L satrec (toDate L (addHours start j)))))
        \<and> length trajectory =
            length (filter (\<lambda>j. guardOk (position (propagate L satrec
                                  (toDate L (addHours start j))))) [0..<4]))
   \<and> (r \<in> set records
        \<and> throws (Twoline2satrec (line1 r) (line2 r)) = None
        \<and> i < 4
        \<and> throws (ToDate (addHours start i)) = None
        \<and> throws (Propagate (twoline2satrec L (line1 r) (line2 r))
              (toDate L (addHours start i))) = None
        \<and> position (propagate L (twoline2satrec L (line1 r) (line2 r))
              (toDate L (addHours start i))) = JsObject v
        \<and> convertExn L throws v (toDate L (addHours start i)) = Inl e \<longrightarrow>
        (\<exists>e'. calculateSatellitePositionsExn L throws start (Some records) st = (Some e', st)))"
proof -
  have guard: "guardOk p = (\<exists>w. p = JsObject w)" by (rule guardOk_iff)
  have conv: "convertExn L throws v jsDate = Inr (convertPosition L v jsDate)"
    if "\<forall>c. throws c = None"
    using that by (rule convertExn_no_throw)
  have pass: "sampleStepExn L throws satrec start i acc =
          (case position (propagate L satrec (toDate L (addHours start i))) of
             JsObject w \<Rightarrow>
               (case convertExn L throws w (toDate L (addHours start i)) of
                  Inl x \<Rightarrow> Inl x
                | Inr pos \<Rightarrow> Inr (acc @ [(addHours start i, pos)]))
           | _ \<Rightarrow> Inr acc)"
    if "throws (ToDate (addHours start i)) = None
        \<and> throws (Propagate satrec (toDate L (addHours start i))) = None"
    using that by (blast intro: sampleStepExn_cases)
  have completed:
    "(\<forall>j < 4. (addHours start j \<in> set (map fst trajectory)) =
                  guardOk (position (propagate L satrec (toDate L (addHours start j)))))
        \<and> length trajectory =
            length (filter (\<lambda>j. guardOk (position (propagate L satrec
                                  (toDate L (addHours start j))))) [0..<4])"
    if run: "sampleLoopExn L throws satrec start 0 [] = Inr trajectory"
  proof -
    from sampleLoopExn_Inr [OF run] have eq: "trajectory = loopSamples L satrec start 4 3600"
      by (simp only: sampleLoop_loopSamples)
    show ?thesis
      unfolding eq
    proof (intro conjI allI impI)
      fix j :: nat assume "j < 4"
      then show "(addHours start j \<in> set (map fst (loopSamples L satrec start 4 3600))) =
                  guardOk (position (propagate L satrec (toDate L (addHours start j))))"
        by (rule loopSamples_sampled_iff)
    next
      show "length (loopSamples L satrec start 4 3600) =
            length (filter (\<lambda>j. guardOk (position (propagate L satrec
                                  (toDate L (addHours start j))))) [0..<4])"
        by (rule loopSamples_length)
    qed
  qed
  have unpublished:
    "\<exists>e'. calculateSatellitePositionsExn L throws start (Some records) st = (Some e', st)"
    if "r \<in> set records
        \<and> throws (Twoline2satrec (line1 r) (line2 r)) = None
        \<and> i < 4
        \<and> throws (ToDate (addHours start i)) = None
        \<and> throws (Propagate (twoline2satrec L (line1 r) (line2 r))
              (toDate L (addHours start i))) = None
        \<and> position (propagate L (twoline2satrec L (line1 r) (line2 r))
              (toDate L (addHours start i))) = JsObject v
        \<and> convertExn L throws v (toDate L (addHours start i)) = Inl e"
    using that by (blast intro: conversion_throw_unpublished)
  show ?thesis
    by (rule conjI [OF guard conjI [OF impI [OF conv] conjI [OF impI [OF pass]
          conjI [OF impI [OF completed] impI [OF unpublished]]]]])
qed

theorem guard_alone_decides_skipping_witness:
  "convertExn demoLib noThrows (EciVec3 NaN NaN NaN) 0
     = Inr (convertPosition demoLib (EciVec3 NaN NaN NaN) 0)
   \<and> demoThrows (ToDate (addHours 0 2)) = None
   \<and> demoThrows (Propagate (''decaying'', ''x'') (toDate demoLib (addHours 0 2))) = None
   \<and> sampleStepExn demoLib demoThrows (''decaying'', ''x'') 0 2
       [(0, (Finite 10, Finite 20, Finite 550000))]
       = Inr [(0, (Finite 10, Finite 20, Finite 550000))]
   \<and> sampleLoopExn demoLib demoThrows (''decaying'', ''x'') 0 0 [] =
       Inr [(0, (Finite 10, Finite 20, Finite 550000)),
            (3600, (Finite 10, Finite 20, Finite 550000))]
   \<and> addHours 0 1 \<in> set (map fst [(0::real, (Finite 10, Finite 20, Finite (550000::real))),
            (3600, (Finite 10, Finite 20, Finite 550000))])
   \<and> guardOk (position (propagate demoLib (''decaying'', ''x'') (toDate demoLib (addHours 0 1))))
   \<and> addHours 0 2 \<notin> set (map fst [(0::real, (Finite 10, Finite 20, Finite (550000::real))),
            (3600, (Finite 10, Finite 20, Finite 550000))])
   \<and> \<not> guardOk (position (propagate demoLib (''decaying'', ''x'') (toDate demoLib (addHours 0 2))))
   \<and> sat3 \<in> set [sat1, sat3]
   \<and> convertExn demoLib demoThrows (EciVec3 NaN NaN NaN) (toDate demoLib (addHours 0 0)) =
       Inl (JsException ''DeveloperError: normalized result is not a number'')
   \<and> (\<exists>e'. calculateSatellitePositionsExn demoLib demoThrows 0 (Some [sat1, sat3])
              \<lparr>satelliteEntities = [], console = []\<rparr>
            = (Some e', \<lparr>satelliteEntities = [], console = []\<rparr>))"
proof -
  let ?exn = "JsException ''DeveloperError: normalized result is not a number''"
  let ?dec = "(''decaying'', ''x'')"
  let ?traj = "[(0::real, (Finite 10, Finite 20, Finite (550000::real))),
            (3600, (Finite 10, Finite 20, Finite 550000))]"
  let ?st = "\<lparr>satelliteEntities = [], console = []\<rparr>
               :: (number \<times> number \<times> number) appState"
  note T1 = guard_alone_decides_skipping [of JsNull noThrows demoLib "EciVec3 NaN NaN NaN" 0
      0 0 "(''nan'', ''nan'')" "[]" "[]" sat3 "[]" ?exn ?st]
  from T1 noThrows_all
  have c1: "convertExn demoLib noThrows (EciVec3 NaN NaN NaN) 0
     = Inr (convertPosition demoLib (EciVec3 NaN NaN NaN) 0)"
    by blast
  have t1: "demoThrows (ToDate (addHours 0 2)) = None"
    and t2: "demoThrows (Propagate ?dec (toDate demoLib (addHours 0 2))) = None"
    by (simp_all add: demoThrows_def)
  have run: "sampleLoopExn demoLib demoThrows ?dec 0 0 [] = Inr ?traj"
    by (simp add: sampleLoopExn.simps sampleStepExn_def convertExn_def call_def demoThrows_def
          demoLib_def addHours_def addSample_def Let_def)
  note T2 = guard_alone_decides_skipping [of JsNull demoThrows demoLib "EciVec3 NaN NaN NaN" 0
      0 2 ?dec "[(0, (Finite 10, Finite 20, Finite 550000))]" ?traj sat3 "[]" ?exn ?st]
  from T2 t1 t2
  have "sampleStepExn demoLib demoThrows ?dec 0 2 [(0, (Finite 10, Finite 20, Finite 550000))] =
          (case position (propagate demoLib ?dec (toDate demoLib (addHours 0 2))) of
             JsObject w \<Rightarrow>
               (case convertExn demoLib demoThrows w (toDate demoLib (addHours 0 2)) of
                  Inl x \<Rightarrow> Inl x
                | Inr pos \<Rightarrow> Inr ([(0, (Finite 10, Finite 20, Finite 550000))] @ [(addHours 0 2, pos)]))
           | _ \<Rightarrow> Inr [(0, (Finite 10, Finite 20, Finite 550000))])"
    by blast
  then have skip: "sampleStepExn demoLib demoThrows ?dec 0 2
       [(0, (Finite 10, Finite 20, Finite 550000))]
       = Inr [(0, (Finite 10, Finite 20, Finite 550000))]"
    by (simp add: demoLib_def addHours_def)
  from T2 run
  have iff: "\<forall>j < 4. (addHours 0 j \<in> set (map fst ?traj)) =
                  guardOk (position (propagate demoLib ?dec (toDate demoLib (addHours 0 j))))"
    by blast
  have g1: "guardOk (position (propagate demoLib ?dec (toDate demoLib (addHours 0 1))))"
    by (simp add: guardOk_def demoLib_def addHours_def)
  have g2: "\<not> guardOk (position (propagate demoLib ?dec (toDate demoLib (addHours 0 2))))"
    by (simp add: guardOk_def demoLib_def addHours_def)
  from iff g1 have m1: "addHours 0 1 \<in> set (map fst ?traj)" by simp
  from iff g2 have m2: "addHours 0 2 \<notin> set (map fst ?traj)" by simp
  have mem: "sat3 \<in> set [sat1, sat3]" by simp
  have conv: "convertExn demoLib demoThrows (EciVec3 NaN NaN NaN) (toDate demoLib (addHours 0 0)) =
       Inl ?exn"
    by (simp add: convertExn_def call_def demoThrows_def demoLib_def)
  note T3 = guard_alone_decides_skipping [of JsNull demoThrows demoLib "EciVec3 NaN NaN NaN" 0
      0 0 ?dec "[]" "[]" sat3 "[sat1, sat3]" ?exn ?st]
  have pre: "sat3 \<in> set [sat1, sat3]
        \<and> demoThrows (Twoline2satrec (line1 sat3) (line2 sat3)) = None
        \<and> (0::nat) < 4
        \<and> demoThrows (ToDate (addHours 0 0)) = None
        \<and> demoThrows (Propagate (twoline2satrec demoLib (line1 sat3) (line2 sat3))
              (toDate demoLib (addHours 0 0))) = None
        \<and> position (propagate demoLib (twoline2satrec demoLib (line1 sat3) (line2 sat3))
              (toDate demoLib (addHours 0 0))) = JsObject (EciVec3 NaN NaN NaN)
        \<and> convertExn demoLib demoThrows (EciVec3 NaN NaN NaN) (toDate demoLib (addHours 0 0))
            = Inl ?exn"
    using conv by (simp add: demoThrows_def) (simp add: demoLib_def sat3_def)
  from T3 pre
  have unpub: "\<exists>e'. calculateSatellitePositionsExn demoLib demoThrows 0 (Some [sat1, sat3]) ?st
            = (Some e', ?st)"
    by blast
  from c1 t1 t2 skip run m1 g1 m2 g2 mem conv unpub show ?thesis
    by (intro conjI)
qed

text \<open>
  C7, as stated, fails: an empty list of records is not \<^verbatim>\<open>undefined\<close>, so the guard
  \<^verbatim>\<open>if (!tleData) return\<close> lets it pass and the empty list of entities replaces the
  published one; nothing is written to the console.
\<close>

theorem empty_records_replace_published:
  "calculateSatellitePositions demoLib 0 (Some [])
     \<lparr>satelliteEntities =
        [\<lparr>entityName = ''SAT-1'',
          entityPosition = [(0, (Finite 10, Finite 20, Finite 550000))]\<rparr>],
      console = []\<rparr>
   = \<lparr>satelliteEntities = [], console = []\<rparr>"
  by (simp add: calculateSatellitePositions_def)

text \<open>
  C7, amended. When the data is \<^verbatim>\<open>undefined\<close>, \<^verbatim>\<open>calculateSatellitePositions\<close>
  returns the state as it was, so the published entities stay. When the data is a list of
  records, the entities built from it (one for each record, none for an empty list)
  replace the published ones. In neither case is a line written to the console.
\<close>

theorem unavailable_source_keeps_published:
  "calculateSatellitePositions L start None st = st
   \<and> satelliteEntities (calculateSatellitePositions L start (Some records) st) =
       map (\<lambda>r. \<lparr>entityName = name r,
                 entityPosition =
                   sampleLoop L (twoline2satrec L (line1 r) (line2 r)) start 0 []\<rparr>)
           records
   \<and> console (calculateSatellitePositions L start tleData st) = console st"
  by (simp add: published_entities console_unchanged) (simp add: calculateSatellitePositions_def)

text \<open>
  C4. On the records \<open>SAT-1\<close> (propagation succeeds) and \<open>SAT-2\<close> (propagation yields
  \<^verbatim>\<open>false\<close> at all four instants) the sampled-position component publishes both
  entities, \<open>SAT-2\<close> with an empty property, and writes nothing to the console. The
  snapshot component, on the same records, publishes \<open>SAT-1\<close> only and writes one error
  line.
\<close>

theorem failed_object_still_published:
  "calculateSatellitePositions demoLib 0 (Some [sat1, sat2])
     \<lparr>satelliteEntities = [], console = []\<rparr>
   = \<lparr>satelliteEntities =
        [\<lparr>entityName = ''SAT-1'',
          entityPosition =
            [(0, (Finite 10, Finite 20, Finite 550000)),
             (3600, (Finite 10, Finite 20, Finite 550000)),
             (7200, (Finite 10, Finite 20, Finite 550000)),
             (10800, (Finite 10, Finite 20, Finite 550000))]\<rparr>,
         \<lparr>entityName = ''SAT-2'', entityPosition = []\<rparr>],
      console = []\<rparr>
   \<and> calculateSatellitePositions_snapshot demoLib (\<lambda>k. (0, 0)) [sat1, sat2]
       \<lparr>satellites = [], consoleErrors = []\<rparr>
     = \<lparr>satellites =
          [\<lparr>satelliteName = ''SAT-1'',
            satellitePosition =
              \<lparr>longitudeDeg = Finite 10, latitudeDeg = Finite 20, altitude = Finite 550000\<rparr>\<rparr>],
        consoleErrors = [''Something is wrong with the data'']\<rparr>"
  using demo_published demo_snapshot by simp

end
